theory Spec2Isabelle
  imports Main
begin

section \<open>Text\<close>

text \<open>
  A Python \<open>str\<close> is modelled as a \<open>string\<close>: a list of characters with code points
  0..255. The functions of this section are the parts of \<open>str\<close> and \<open>re\<close> that
  \<open>playlist_gen.py\<close> calls.
\<close>

text \<open>\<open>str.strip()\<close> removes the characters for which \<open>str.isspace\<close> holds, at both ends.\<close>

definition isspace :: "char \<Rightarrow> bool" where
  "isspace c = (c \<in> set [CHR 0x09, CHR 0x0A, CHR 0x0B, CHR 0x0C, CHR 0x0D, CHR 0x1C,
                          CHR 0x1D, CHR 0x1E, CHR 0x1F, CHR 0x20, CHR 0x85, CHR 0xA0])"

definition strip :: "string \<Rightarrow> string" where
  "strip s = rev (dropWhile isspace (rev (dropWhile isspace s)))"

text \<open>\<open>str.lower()\<close> on the code points 0..255.\<close>

definition lower_char :: "char \<Rightarrow> char" where
  "lower_char c =
     (let n = (of_char c :: nat)
      in if (65 \<le> n \<and> n \<le> 90) \<or> (192 \<le> n \<and> n \<le> 222 \<and> n \<noteq> 215)
         then char_of (n + 32) else c)"

definition lower :: "string \<Rightarrow> string" where
  "lower s = map lower_char s"

text \<open>\<open>sub in s\<close> on strings: \<open>sub\<close> occurs in \<open>s\<close> as a contiguous block.\<close>

fun contains :: "string \<Rightarrow> string \<Rightarrow> bool" where
  "contains sub [] = (sub = [])"
| "contains sub (c # cs) = (take (length sub) (c # cs) = sub \<or> contains sub cs)"

text \<open>\<open>str(n)\<close> for a non-negative integer: its decimal digits.\<close>

definition digit :: "nat \<Rightarrow> char" where
  "digit d = ''0123456789'' ! d"

fun str_nat :: "nat \<Rightarrow> string" where
  "str_nat n = (if n < 10 then [digit n] else str_nat (n div 10) @ [digit (n mod 10)])"

declare str_nat.simps [simp del]

section \<open>The link parser\<close>

text \<open>The character class \<open>[a-zA-Z0-9_-]\<close>.\<close>

definition id_char :: "char \<Rightarrow> bool" where
  "id_char c =
     (c \<in> set ''abcdefghijklmnopqrstuvwxyzABCDEFGHIJKLMNOPQRSTUVWXYZ0123456789_-'')"

text \<open>
  Both regular expressions of \<open>extract_video_id\<close> have the form
  \<open>(?:p\<^sub>1|...|p\<^sub>n)([a-zA-Z0-9_-]{11})\<close> with literal alternatives \<open>p\<^sub>i\<close>.
  \<open>strip_prefix p s\<close> matches the literal \<open>p\<close> at the start of \<open>s\<close> and returns the rest;
  \<open>match_here p s\<close> matches one alternative followed by the group at the start of \<open>s\<close>
  and returns the group; \<open>first_alt\<close> tries the alternatives in the order written;
  \<open>re_search\<close> is \<open>re.search\<close>: the match at the leftmost position that has one.
\<close>

fun strip_prefix :: "string \<Rightarrow> string \<Rightarrow> string option" where
  "strip_prefix [] s = Some s"
| "strip_prefix (a # p) [] = None"
| "strip_prefix (a # p) (c # cs) = (if a = c then strip_prefix p cs else None)"

definition match_here :: "string \<Rightarrow> string \<Rightarrow> string option" where
  "match_here p s =
     (case strip_prefix p s of
        None \<Rightarrow> None
      | Some r \<Rightarrow>
          if 11 \<le> length r \<and> list_all id_char (take 11 r) then Some (take 11 r) else None)"

text \<open>The group \<open>([a-zA-Z0-9_-]{11})\<close> at the start of \<open>r\<close>.\<close>

definition group :: "string \<Rightarrow> string option" where
  "group r = (if 11 \<le> length r \<and> list_all id_char (take 11 r) then Some (take 11 r) else None)"

fun first_alt :: "string list \<Rightarrow> string \<Rightarrow> string option" where
  "first_alt [] s = None"
| "first_alt (p # ps) s =
     (case match_here p s of Some g \<Rightarrow> Some g | None \<Rightarrow> first_alt ps s)"

fun re_search :: "string list \<Rightarrow> string \<Rightarrow> string option" where
  "re_search ps [] = first_alt ps []"
| "re_search ps (c # cs) =
     (case first_alt ps (c # cs) of Some g \<Rightarrow> Some g | None \<Rightarrow> re_search ps cs)"

text \<open>The alternatives of the first expression, in the order of the source, and of the second.\<close>

definition watch_patterns :: "string list" where
  "watch_patterns = [''v='', ''youtu.be/'', ''embed/'', ''v/'', ''watch?v='', ''/videos/'']"

definition shorts_patterns :: "string list" where
  "shorts_patterns = [''shorts/'']"

definition extract_video_id :: "string \<Rightarrow> string option" where
  "extract_video_id url =
     (case re_search watch_patterns url of
        Some g \<Rightarrow> Some g
      | None \<Rightarrow>
          (case re_search shorts_patterns url of
             Some g \<Rightarrow> Some g
           | None \<Rightarrow> None))"

text \<open>A video identifier: eleven characters of the class.\<close>

definition is_video_id :: "string \<Rightarrow> bool" where
  "is_video_id v = (length v = 11 \<and> list_all id_char v)"


section \<open>Values of the script\<close>

text \<open>
  Truth value of an optional string, as \<open>if x:\<close> tests it: \<open>None\<close> and the empty string
  are false.
\<close>

definition truthy :: "string option \<Rightarrow> bool" where
  "truthy x = (case x of None \<Rightarrow> False | Some s \<Rightarrow> s \<noteq> [])"

text \<open>The string of a true optional string: \<open>None\<close> when \<open>if x:\<close> fails.\<close>

definition nonempty :: "string option \<Rightarrow> string option" where
  "nonempty x = (case x of None \<Rightarrow> None | Some s \<Rightarrow> if s \<noteq> [] then Some s else None)"

text \<open>An f-string field written between single quotes: \<open>'{x}'\<close>.\<close>

definition quoted :: "string \<Rightarrow> string" where
  "quoted s = CHR 0x27 # s @ [CHR 0x27]"

text \<open>
  The body of an HTTP error is a byte string, read with \<open>e.content.decode()\<close>, which
  raises \<open>UnicodeDecodeError\<close> on bytes that are not UTF-8. \<open>Utf8 s\<close> is a body that
  decodes to the text \<open>s\<close>.
\<close>

datatype bytes = Utf8 string | NotUtf8

text \<open>
  Exceptions that leave a function of the script: a failed \<open>decode\<close> inside an
  \<open>except HttpError\<close> handler, and what \<open>InstalledAppFlow.from_client_secrets_file\<close>
  raises outside any \<open>try\<close>.
\<close>

datatype exn = UnicodeDecodeError | ClientSecretsError string

definition decode :: "bytes \<Rightarrow> exn + string" where
  "decode b = (case b of Utf8 s \<Rightarrow> Inr s | NotUtf8 \<Rightarrow> Inl UnicodeDecodeError)"

text \<open>
  What \<open>request.execute()\<close> does: it returns the response, raises \<open>HttpError\<close> with the
  status and body of the response, or raises another exception, of which the script
  reads the message \<open>str(e)\<close> only.
\<close>

datatype 'a outcome = Returns 'a | RaisesHttpError nat bytes | Raises string

text \<open>
  The attributes of \<open>google.oauth2.credentials.Credentials\<close> that the script reads.
  \<open>valid\<close> and \<open>expired\<close> are the library's properties, read at one clock state.
\<close>

record credentials =
  token :: string
  refresh_token :: "string option"
  valid :: bool
  expired :: bool

datatype flow = InstalledAppFlow string

datatype service = Service credentials

section \<open>The world outside the script\<close>

text \<open>
  Every \<open>print\<close> and every call that leaves the script is recorded, in order, in the
  trace of the world. The calls that the script makes under no handler and that are not
  listed among the exceptions above (\<open>print\<close>, \<open>os.path.exists\<close>, \<open>open\<close>, \<open>build\<close>) are
  taken to return.
\<close>

datatype event =
    Print string
  | LoadCredentials
  | RefreshToken
  | LoadClientSecrets
  | RunLocalServer
  | WriteCredentials string
  | Build
  | PlaylistsInsert string string string
  | PlaylistItemsInsert string string

record 'w world =
  trace :: "event list"
  credentials_file :: "string option"
  remote :: 'w

text \<open>
  What the run is given: the two answers to \<open>input()\<close>, the lines of \<open>yt_links.txt\<close>
  (\<open>None\<close> when the file does not exist), the contents of the client secrets file, the
  functions of the Google libraries, and the remote service as a state machine on \<open>'w\<close>.
  For the library functions \<open>Inl m\<close> is an exception with message \<open>m\<close>.
\<close>

record 'w env =
  title_answer :: string
  description_answer :: string
  links_file :: "string list option"
  client_secrets_file :: "string option"
  from_authorized_user_file :: "string \<Rightarrow> string + credentials"
  refresh :: "credentials \<Rightarrow> string + credentials"
  from_client_secrets_file :: "string \<Rightarrow> string + flow"
  run_local_server :: "flow \<Rightarrow> string + credentials"
  to_json :: "credentials \<Rightarrow> string"
  playlists_insert ::
    "service \<Rightarrow> 'w \<Rightarrow> string \<Rightarrow> string \<Rightarrow> string \<Rightarrow> (string \<rightharpoonup> string) outcome \<times> 'w"
  playlistItems_insert :: "service \<Rightarrow> 'w \<Rightarrow> string \<Rightarrow> string \<Rightarrow> unit outcome \<times> 'w"

definition print :: "string \<Rightarrow> 'w world \<Rightarrow> 'w world" where
  "print s w = w\<lparr>trace := trace w @ [Print s]\<rparr>"

definition record_call :: "event \<Rightarrow> 'w world \<Rightarrow> 'w world" where
  "record_call e w = w\<lparr>trace := trace w @ [e]\<rparr>"

section \<open>Configuration\<close>

definition YT_LINKS_FILE :: string where
  "YT_LINKS_FILE = ''yt_links.txt''"

definition DEFAULT_PLAYLIST_TITLE :: string where
  "DEFAULT_PLAYLIST_TITLE = ''My New Playlist''"

definition DEFAULT_PLAYLIST_DESCRIPTION :: string where
  "DEFAULT_PLAYLIST_DESCRIPTION = ''Playlist created automatically using a Python script.''"

definition PLAYLIST_PRIVACY_STATUS :: string where
  "PLAYLIST_PRIVACY_STATUS = ''unlisted''"

definition CLIENT_SECRETS_FILE :: string where
  "CLIENT_SECRETS_FILE = ''config/client_secrets.json''"

definition CREDENTIALS_FILE :: string where
  "CREDENTIALS_FILE = ''config/credentials.json''"

definition PLAYLIST_TITLE :: "'w env \<Rightarrow> string" where
  "PLAYLIST_TITLE E =
     (let t = strip (title_answer E) in if t = [] then DEFAULT_PLAYLIST_TITLE else t)"

definition PLAYLIST_DESCRIPTION :: "'w env \<Rightarrow> string" where
  "PLAYLIST_DESCRIPTION E =
     (let d = strip (description_answer E)
      in if d = [] then DEFAULT_PLAYLIST_DESCRIPTION else d)"


section \<open>\<open>get_authenticated_service\<close>\<close>

text \<open>
  Lines 49 to 57: the credentials start as \<open>None\<close>; when the credentials file exists it
  is loaded, and a failed load prints the error and leaves \<open>None\<close>.
\<close>

definition load_credentials :: "'w env \<Rightarrow> 'w world \<Rightarrow> credentials option \<times> 'w world" where
  "load_credentials E w =
     (case credentials_file w of
        None \<Rightarrow> (None, w)
      | Some txt \<Rightarrow>
          (let w1 = record_call LoadCredentials w
           in case from_authorized_user_file E txt of
                Inr c \<Rightarrow> (Some c, w1)
              | Inl e \<Rightarrow>
                  (None,
                   print (''Error loading credentials from '' @ CREDENTIALS_FILE @ '': '' @ e)
                     w1)))"

text \<open>
  The test \<open>not credentials or not credentials.valid\<close> of lines 60 and 69:
  \<open>usable co\<close> is \<open>None\<close> when the test holds, and the credentials when it fails.
  A \<open>Credentials\<close> object is true, so that \<open>not credentials\<close> holds of \<open>None\<close> only.
\<close>

definition usable :: "credentials option \<Rightarrow> credentials option" where
  "usable co = (case co of None \<Rightarrow> None | Some c \<Rightarrow> if valid c then Some c else None)"

text \<open>Lines 61 to 67: an expired credential with a refresh token is refreshed once.\<close>

definition refresh_credentials ::
  "'w env \<Rightarrow> credentials option \<Rightarrow> 'w world \<Rightarrow> credentials option \<times> 'w world" where
  "refresh_credentials E co w =
     (case co of
        None \<Rightarrow> (None, w)
      | Some c \<Rightarrow>
          if expired c \<and> truthy (refresh_token c)
          then (let w1 = record_call RefreshToken (print ''Refreshing access token...'' w)
                in case refresh E c of
                     Inr c' \<Rightarrow> (Some c', w1)
                   | Inl e \<Rightarrow> (None, print (''Error refreshing token: '' @ e) w1))
          else (Some c, w))"

text \<open>
  Lines 70 to 88: the interactive flow. \<open>Inr None\<close> is \<open>return None\<close>; \<open>Inl\<close> is the
  exception of \<open>from_client_secrets_file\<close>, which no handler of the function catches.
\<close>

definition interactive_flow ::
  "'w env \<Rightarrow> 'w world \<Rightarrow> (exn + credentials option) \<times> 'w world" where
  "interactive_flow E w =
     (let w1 = print ''Initiating new authentication flow...'' w
      in case client_secrets_file E of
           None \<Rightarrow>
             (Inr None,
              print ''and rename it to 'client_secrets.json' in the same directory as this script.''
                (print ''Please download your OAuth 2.0 client secrets JSON file from Google Cloud Console''
                  (print (''Error: '' @ quoted CLIENT_SECRETS_FILE @ '' not found.'') w1)))
         | Some secrets \<Rightarrow>
             (let w2 = record_call LoadClientSecrets w1
              in case from_client_secrets_file E secrets of
                   Inl e \<Rightarrow> (Inl (ClientSecretsError e), w2)
                 | Inr fl \<Rightarrow>
                     (let w3 = record_call RunLocalServer w2
                      in case run_local_server E fl of
                           Inl e \<Rightarrow>
                             (Inr None,
                              print ''Please ensure 'client_secrets.json' is correctly configured and you have an internet connection.''
                                (print (''Error during OAuth 2.0 flow: '' @ e) w3))
                         | Inr c \<Rightarrow> (Inr (Some c), w3))))"

text \<open>Lines 91 to 93: the credentials are written to the credentials file.\<close>

definition save_credentials :: "'w env \<Rightarrow> credentials \<Rightarrow> 'w world \<Rightarrow> 'w world" where
  "save_credentials E c w =
     print (''Credentials saved to '' @ CREDENTIALS_FILE)
       (record_call (WriteCredentials (to_json E c))
         (w\<lparr>credentials_file := Some (to_json E c)\<rparr>))"

text \<open>Line 95.\<close>

definition build :: "credentials \<Rightarrow> 'w world \<Rightarrow> (exn + service option) \<times> 'w world" where
  "build c w = (Inr (Some (Service c)), record_call Build w)"

text \<open>
  What follows the interactive flow: its exception and its \<open>return None\<close> leave the
  function, its credentials are saved (lines 91 to 93) and the service is built (line 95).
\<close>

definition finish_flow ::
  "'w env \<Rightarrow> (exn + credentials option) \<times> 'w world \<Rightarrow> (exn + service option) \<times> 'w world" where
  "finish_flow E r =
     (case r of
        (Inl e, w1) \<Rightarrow> (Inl e, w1)
      | (Inr None, w1) \<Rightarrow> (Inr None, w1)
      | (Inr (Some c), w1) \<Rightarrow> build c (save_credentials E c w1))"

text \<open>Lines 69 to 95, entered with the credentials that the refresh step leaves.\<close>

definition reauthenticate ::
  "'w env \<Rightarrow> credentials option \<Rightarrow> 'w world \<Rightarrow> (exn + service option) \<times> 'w world" where
  "reauthenticate E co w =
     (case usable co of
        None \<Rightarrow> finish_flow E (interactive_flow E w)
      | Some c \<Rightarrow> build c (save_credentials E c w))"

definition get_authenticated_service ::
  "'w env \<Rightarrow> 'w world \<Rightarrow> (exn + service option) \<times> 'w world" where
  "get_authenticated_service E w =
     (case load_credentials E w of
        (co, w1) \<Rightarrow>
          (case usable co of
             None \<Rightarrow>
               (case refresh_credentials E co w1 of
                  (co2, w2) \<Rightarrow> reauthenticate E co2 w2)
           | Some c \<Rightarrow> build c w1))"

section \<open>\<open>create_playlist\<close> and \<open>add_video_to_playlist\<close>\<close>

definition create_playlist ::
  "'w env \<Rightarrow> service \<Rightarrow> string \<Rightarrow> string \<Rightarrow> string \<Rightarrow> 'w world
     \<Rightarrow> (exn + string option) \<times> 'w world" where
  "create_playlist E youtube_service title description privacy_status w =
     (let w1 = print (''Attempting to create playlist: '' @ quoted title @ ''...'') w
      in case playlists_insert E youtube_service (remote w1) title description privacy_status of
           (out, r) \<Rightarrow>
             (let w2 = record_call (PlaylistsInsert title description privacy_status)
                         (w1\<lparr>remote := r\<rparr>)
              in case out of
                   Returns response \<Rightarrow>
                     (case response ''id'' of
                        Some playlist_id \<Rightarrow>
                          (Inr (Some playlist_id),
                           print (''Playlist '' @ quoted title @ '' created successfully! ID: ''
                                    @ playlist_id) w2)
                      | None \<Rightarrow>
                          (Inr None,
                           print (''An unexpected error occurred while creating playlist: ''
                                    @ quoted ''id'') w2))
                 | RaisesHttpError status content \<Rightarrow>
                     (case decode content of
                        Inl x \<Rightarrow> (Inl x, w2)
                      | Inr body \<Rightarrow>
                          (Inr None,
                           print (''An HTTP error '' @ str_nat status
                                    @ '' occurred while creating playlist: '' @ body) w2))
                 | Raises e \<Rightarrow>
                     (Inr None,
                      print (''An unexpected error occurred while creating playlist: '' @ e)
                        w2)))"

text \<open>The three messages of the \<open>except HttpError\<close> handler of \<open>add_video_to_playlist\<close>.\<close>

definition not_found_warning :: "string \<Rightarrow> string" where
  "not_found_warning video_id =
     ''Warning: Video ID '' @ quoted video_id @ '' not found or is private/deleted. Skipping.''"

definition duplicate_warning :: "string \<Rightarrow> string" where
  "duplicate_warning video_id =
     ''Warning: Video ID '' @ quoted video_id @ '' is already in the playlist. Skipping.''"

definition http_error_message :: "nat \<Rightarrow> string \<Rightarrow> string \<Rightarrow> string" where
  "http_error_message status video_id body =
     ''An HTTP error '' @ str_nat status @ '' occurred while adding video '' @ quoted video_id
       @ '': '' @ body"

text \<open>Lines 163 to 171: the \<open>except HttpError\<close> handler.\<close>

definition http_error_handler ::
  "nat \<Rightarrow> bytes \<Rightarrow> string \<Rightarrow> 'w world \<Rightarrow> (exn + bool) \<times> 'w world" where
  "http_error_handler status content video_id w =
     (if status = 404
      then (Inr False, print (not_found_warning video_id) w)
      else (case decode content of
              Inl x \<Rightarrow> (Inl x, w)
            | Inr body \<Rightarrow>
                if status = 400 \<and> contains ''duplicate'' (lower body)
                then (Inr False, print (duplicate_warning video_id) w)
                else (Inr False, print (http_error_message status video_id body) w)))"

definition add_video_to_playlist ::
  "'w env \<Rightarrow> service \<Rightarrow> string \<Rightarrow> string \<Rightarrow> 'w world \<Rightarrow> (exn + bool) \<times> 'w world" where
  "add_video_to_playlist E youtube_service playlist_id video_id w =
     (let w1 = print (''Adding video ID '' @ quoted video_id @ '' to playlist ''
                        @ quoted playlist_id @ ''...'') w
      in case playlistItems_insert E youtube_service (remote w1) playlist_id video_id of
           (out, r) \<Rightarrow>
             (let w2 = record_call (PlaylistItemsInsert playlist_id video_id) (w1\<lparr>remote := r\<rparr>)
              in case out of
                   Returns u \<Rightarrow>
                     (Inr True,
                      print (''Successfully added video ID '' @ quoted video_id @ ''.'') w2)
                 | RaisesHttpError status content \<Rightarrow>
                     http_error_handler status content video_id w2
                 | Raises e \<Rightarrow>
                     (Inr False,
                      print (''An unexpected error occurred while adding video ''
                               @ quoted video_id @ '': '' @ e) w2)))"

section \<open>\<open>main\<close>\<close>

definition skip_warning :: "string \<Rightarrow> string" where
  "skip_warning url = ''Warning: Could not extract video ID from URL: '' @ url @ ''. Skipping.''"

text \<open>Lines 187 to 194: the loop over the lines of the file.\<close>

fun read_links :: "string list \<Rightarrow> string list \<Rightarrow> 'w world \<Rightarrow> string list \<times> 'w world" where
  "read_links [] video_ids w = (video_ids, w)"
| "read_links (line # rest) video_ids w =
     (let url = strip line
      in if url \<noteq> []
         then (case nonempty (extract_video_id url) of
                 Some video_id \<Rightarrow> read_links rest (video_ids @ [video_id]) w
               | None \<Rightarrow> read_links rest video_ids (print (skip_warning url) w))
         else read_links rest video_ids w)"

text \<open>Lines 217 to 219: the loop over the identifiers, with the counter.\<close>

fun add_videos ::
  "'w env \<Rightarrow> service \<Rightarrow> string \<Rightarrow> string list \<Rightarrow> nat \<Rightarrow> 'w world \<Rightarrow> (exn + nat) \<times> 'w world" where
  "add_videos E youtube playlist_id [] added_count w = (Inr added_count, w)"
| "add_videos E youtube playlist_id (video_id # rest) added_count w =
     (case add_video_to_playlist E youtube playlist_id video_id w of
        (Inl x, w1) \<Rightarrow> (Inl x, w1)
      | (Inr ok, w1) \<Rightarrow>
          add_videos E youtube playlist_id rest (if ok then added_count + 1 else added_count) w1)"

definition finished_message :: "nat \<Rightarrow> nat \<Rightarrow> string" where
  "finished_message added_count len_video_ids =
     CHR 0x0A # ''Finished processing. Added '' @ str_nat added_count @ '' out of ''
       @ str_nat len_video_ids @ '' videos to the playlist.''"

text \<open>Lines 214 to 222.\<close>

definition fill_playlist ::
  "'w env \<Rightarrow> service \<Rightarrow> string \<Rightarrow> string list \<Rightarrow> 'w world \<Rightarrow> (exn + unit) \<times> 'w world" where
  "fill_playlist E youtube playlist_id video_ids w =
     (case add_videos E youtube playlist_id video_ids 0
             (print (CHR 0x0A # ''Starting to add videos to the playlist...'') w) of
        (Inl x, w1) \<Rightarrow> (Inl x, w1)
      | (Inr added_count, w1) \<Rightarrow>
          (Inr (),
           print (''You can view your playlist here: https://www.youtube.com/playlist?list=''
                    @ playlist_id)
             (print (finished_message added_count (length video_ids)) w1)))"

text \<open>Lines 208 to 222.\<close>

definition create_and_fill ::
  "'w env \<Rightarrow> service \<Rightarrow> string list \<Rightarrow> 'w world \<Rightarrow> (exn + unit) \<times> 'w world" where
  "create_and_fill E youtube video_ids w =
     (case create_playlist E youtube (PLAYLIST_TITLE E) (PLAYLIST_DESCRIPTION E)
             PLAYLIST_PRIVACY_STATUS w of
        (Inl x, w1) \<Rightarrow> (Inl x, w1)
      | (Inr playlist_id, w1) \<Rightarrow>
          (case nonempty playlist_id of
             None \<Rightarrow> (Inr (), print ''Failed to create playlist. Exiting.'' w1)
           | Some pid \<Rightarrow> fill_playlist E youtube pid video_ids w1))"

definition main :: "'w env \<Rightarrow> 'w world \<Rightarrow> (exn + unit) \<times> 'w world" where
  "main E w =
     (case links_file E of
        None \<Rightarrow>
          (Inr (),
           print ''Please create this file and add YouTube video URLs, one per line.''
             (print (''Error: '' @ quoted YT_LINKS_FILE @ '' not found in the current directory.'')
                w))
      | Some lines \<Rightarrow>
          (case read_links lines [] w of
             (video_ids, w1) \<Rightarrow>
               if video_ids = []
               then (Inr (),
                     print (''No valid YouTube video links found in '' @ quoted YT_LINKS_FILE
                              @ ''. Exiting.'') w1)
               else (let w2 = print (''Found '' @ str_nat (length video_ids)
                                       @ '' video IDs to process.'') w1
                     in case get_authenticated_service E w2 of
                          (Inl x, w3) \<Rightarrow> (Inl x, w3)
                        | (Inr None, w3) \<Rightarrow>
                            (Inr (), print ''Authentication failed. Exiting.'' w3)
                        | (Inr (Some youtube), w3) \<Rightarrow> create_and_fill E youtube video_ids w3)))"


section \<open>Observations on traces and on the remote service\<close>

fun is_print :: "event \<Rightarrow> bool" where
  "is_print (Print s) = True"
| "is_print e = False"

text \<open>The calls of a trace: its events other than \<open>print\<close>.\<close>

definition calls :: "event list \<Rightarrow> event list" where
  "calls tr = filter (\<lambda>e. \<not> is_print e) tr"

fun is_item_insert :: "event \<Rightarrow> bool" where
  "is_item_insert (PlaylistItemsInsert p v) = True"
| "is_item_insert e = False"

text \<open>
  The outcomes that the remote service gives to the insertion of the identifiers, one
  after the other, from the state \<open>r\<close>.
\<close>

fun insert_outcomes ::
  "'w env \<Rightarrow> service \<Rightarrow> string \<Rightarrow> string list \<Rightarrow> 'w \<Rightarrow> unit outcome list" where
  "insert_outcomes E youtube playlist_id [] r = []"
| "insert_outcomes E youtube playlist_id (v # vs) r =
     (case playlistItems_insert E youtube r playlist_id v of
        (out, r') \<Rightarrow> out # insert_outcomes E youtube playlist_id vs r')"

fun succeeded :: "'a outcome \<Rightarrow> bool" where
  "succeeded (Returns u) = True"
| "succeeded out = False"

text \<open>
  An outcome whose error body, where the handler reads it, is text: every outcome but an
  HTTP error of a status other than 404 with a body that is not UTF-8.
\<close>

fun readable :: "unit outcome \<Rightarrow> bool" where
  "readable (RaisesHttpError status content) = (status = 404 \<or> content \<noteq> NotUtf8)"
| "readable out = True"


section \<open>The classes of a failed insertion\<close>

text \<open>
  The specification names three classes of failure. The handler reports each by its own
  message; \<open>spec_classify\<close> is the classification in the words of the specification.
\<close>

datatype failure = NotFound | Duplicate | ApiError

definition failure_message :: "failure \<Rightarrow> nat \<Rightarrow> string \<Rightarrow> string \<Rightarrow> string" where
  "failure_message f status video_id body =
     (case f of
        NotFound \<Rightarrow> not_found_warning video_id
      | Duplicate \<Rightarrow> duplicate_warning video_id
      | ApiError \<Rightarrow> http_error_message status video_id body)"

definition spec_classify :: "nat \<Rightarrow> string \<Rightarrow> failure" where
  "spec_classify status body =
     (if status = 404 then NotFound
      else if status = 400 \<and> contains ''duplicate'' body then Duplicate
      else ApiError)"

section \<open>A sample environment\<close>

text \<open>
  An environment and a world on which the theorems below are run: valid credentials
  come out of the file \<open>saved\<close> and out of the interactive flow, every playlist is
  created, and the remote service, whose state is the list of the videos inserted so
  far, rejects the video \<open>gone0000000\<close> with status 404, a video it already has
  with status 400, and any video beyond the third with status 403.
\<close>

definition demo_credentials :: credentials where
  "demo_credentials =
     \<lparr>token = ''ya29.a0'', refresh_token = Some ''1//0g'', valid = True, expired = False\<rparr>"

definition demo_items_insert ::
  "service \<Rightarrow> string list \<Rightarrow> string \<Rightarrow> string \<Rightarrow> unit outcome \<times> string list" where
  "demo_items_insert youtube r playlist_id v =
     (if v = ''gone0000000'' then (RaisesHttpError 404 (Utf8 ''Video not found.''), r)
      else if v \<in> set r then (RaisesHttpError 400 (Utf8 ''Duplicate playlist item.''), r)
      else if 3 \<le> length r then (RaisesHttpError 403 (Utf8 ''quotaExceeded''), r)
      else (Returns (), r @ [v]))"

definition demo_playlists_insert ::
  "service \<Rightarrow> string list \<Rightarrow> string \<Rightarrow> string \<Rightarrow> string
     \<Rightarrow> (string \<rightharpoonup> string) outcome \<times> string list" where
  "demo_playlists_insert youtube r title description privacy =
     (Returns [''id'' \<mapsto> ''PL0123456789''], [])"

definition demo_env :: "string list env" where
  "demo_env =
     \<lparr>title_answer = ''  '',
      description_answer = ''Road trip'',
      links_file = Some [''https://youtu.be/dQw4w9WgXcQ'', ''not-a-url'', [CHR 0x0A],
                         ''https://www.youtube.com/shorts/abc12345678''],
      client_secrets_file = Some ''{installed}'',
      from_authorized_user_file =
        (\<lambda>txt. if txt = ''saved'' then Inr demo_credentials else Inl ''Expecting value''),
      refresh = (\<lambda>c. Inr (c\<lparr>valid := True, expired := False\<rparr>)),
      from_client_secrets_file = (\<lambda>txt. Inr (InstalledAppFlow txt)),
      run_local_server = (\<lambda>fl. Inr demo_credentials),
      to_json = (\<lambda>c. ''saved''),
      playlists_insert = demo_playlists_insert,
      playlistItems_insert = demo_items_insert\<rparr>"

definition demo_world :: "string list world" where
  "demo_world = \<lparr>trace = [], credentials_file = None, remote = []\<rparr>"

definition demo_playlists_reject ::
  "service \<Rightarrow> string list \<Rightarrow> string \<Rightarrow> string \<Rightarrow> string
     \<Rightarrow> (string \<rightharpoonup> string) outcome \<times> string list" where
  "demo_playlists_reject youtube r title description privacy =
     (RaisesHttpError 403 (Utf8 ''quotaExceeded''), r)"

definition demo_reject_env :: "string list env" where
  "demo_reject_env = demo_env\<lparr>playlists_insert := demo_playlists_reject\<rparr>"

definition demo_expired :: credentials where
  "demo_expired = demo_credentials\<lparr>valid := False, expired := True\<rparr>"

definition demo_stale_env :: "string list env" where
  "demo_stale_env = demo_env\<lparr>from_authorized_user_file := (\<lambda>txt. Inr demo_expired)\<rparr>"

definition demo_stale_world :: "string list world" where
  "demo_stale_world = demo_world\<lparr>credentials_file := Some ''stale''\<rparr>"

text \<open>
  Two remote services that answer with a body that is not UTF-8: one to the insertion of
  the video \<open>bad00000000\<close>, with status 500, and one to every creation of a playlist,
  with status 503.
\<close>

definition demo_garbled_insert ::
  "service \<Rightarrow> string list \<Rightarrow> string \<Rightarrow> string \<Rightarrow> unit outcome \<times> string list" where
  "demo_garbled_insert youtube r playlist_id v =
     (if v = ''gone0000000'' then (RaisesHttpError 404 (Utf8 ''Video not found.''), r)
      else if v = ''bad00000000'' then (RaisesHttpError 500 NotUtf8, r)
      else (Returns (), r @ [v]))"

definition demo_garbled_env :: "string list env" where
  "demo_garbled_env =
     demo_env\<lparr>links_file := Some [''https://youtu.be/gone0000000'',
                                   ''https://youtu.be/bad00000000'',
                                   ''https://youtu.be/dQw4w9WgXcQ''],
              playlistItems_insert := demo_garbled_insert\<rparr>"

definition demo_garbled_create ::
  "service \<Rightarrow> string list \<Rightarrow> string \<Rightarrow> string \<Rightarrow> string
     \<Rightarrow> (string \<rightharpoonup> string) outcome \<times> string list" where
  "demo_garbled_create youtube r title description privacy =
     (RaisesHttpError 503 NotUtf8, r)"

definition demo_garbled_create_env :: "string list env" where
  "demo_garbled_create_env = demo_env\<lparr>playlists_insert := demo_garbled_create\<rparr>"

section \<open>The link parser: properties\<close>

lemma strip_prefix_iff: "strip_prefix p s = Some r \<longleftrightarrow> s = p @ r"
  by (induction p s rule: strip_prefix.induct) auto

lemma strip_prefix_short: "length s < length p \<Longrightarrow> strip_prefix p s = None"
  by (induction p s rule: strip_prefix.induct) auto





lemma id_char_nth: "is_video_id v \<Longrightarrow> i < 11 \<Longrightarrow> id_char (v ! i)"
  by (simp add: is_video_id_def list_all_length)

lemma not_videos: 
  assumes "is_video_id v" shows "strip_prefix ''videos/'' (v @ rest) = None"
proof (cases "strip_prefix ''videos/'' (v @ rest)")
  case None then show ?thesis .
next
  case (Some r)
  then have a: "v @ rest = ''videos/'' @ r" by (simp only: strip_prefix_iff)
  have "(v @ rest) ! 6 = v ! 6" using assms by (simp add: is_video_id_def nth_append)
  moreover have "(''videos/'' @ r) ! 6 = CHR ''/''" by simp
  ultimately have "v ! 6 = CHR ''/''" using a by simp
  moreover have "id_char (v ! 6)" using assms by (rule id_char_nth) simp
  ultimately show ?thesis by (simp add: id_char_def)
qed

lemma group_id: "is_video_id v \<Longrightarrow> 11 \<le> length (v @ rest) \<and> list_all id_char (take 11 (v @ rest)) \<and> take 11 (v @ rest) = v"
  by (simp add: is_video_id_def)

lemma watch: "is_video_id v \<Longrightarrow> extract_video_id (''https://www.youtube.com/watch?v='' @ v @ rest) = Some v"
  by (simp add: extract_video_id_def watch_patterns_def match_here_def is_video_id_def)


lemma embed: "is_video_id v \<Longrightarrow> extract_video_id (''https://www.youtube.com/embed/'' @ v @ rest) = Some v"
  by (simp add: extract_video_id_def watch_patterns_def match_here_def is_video_id_def)

lemma shorts_w: "is_video_id v \<Longrightarrow> re_search watch_patterns (v @ rest) = None \<Longrightarrow> re_search watch_patterns (''https://www.youtube.com/shorts/'' @ v @ rest) = None"
  by (simp add: watch_patterns_def match_here_def not_videos)

lemma shorts_s: "is_video_id v \<Longrightarrow> re_search shorts_patterns (''https://www.youtube.com/shorts/'' @ v @ rest) = Some v"
  by (simp add: shorts_patterns_def match_here_def is_video_id_def)

lemma shorts: "is_video_id v \<Longrightarrow> re_search watch_patterns (v @ rest) = None \<Longrightarrow> extract_video_id (''https://www.youtube.com/shorts/'' @ v @ rest) = Some v"
  by (simp only: extract_video_id_def shorts_w shorts_s option.case)















lemma match_here_is_id: "match_here p s = Some g \<Longrightarrow> is_video_id g"
  by (auto simp: match_here_def is_video_id_def split: option.splits if_splits)

lemma first_alt_is_id: "first_alt ps s = Some g \<Longrightarrow> is_video_id g"
  by (induction ps) (auto split: option.splits dest: match_here_is_id)

lemma re_search_is_id: "re_search ps s = Some g \<Longrightarrow> is_video_id g"
  by (induction s) (auto split: option.splits dest: first_alt_is_id)

lemma extract_is_id: "extract_video_id url = Some g \<Longrightarrow> is_video_id g"
  by (auto simp: extract_video_id_def split: option.splits dest: re_search_is_id)

lemma nonempty_extract [simp]: "nonempty (extract_video_id url) = extract_video_id url"
proof (cases "extract_video_id url")
  case None
  then show ?thesis by (simp add: nonempty_def)
next
  case (Some g)
  then have "length g = 11" using extract_is_id [OF Some] by (simp add: is_video_id_def)
  then have "g \<noteq> []" by auto
  with Some show ?thesis by (simp add: nonempty_def)
qed

section \<open>Reading the link file\<close>

lemma read_links_eq:
  "read_links lines video_ids w =
     (video_ids @ List.map_filter (\<lambda>l. extract_video_id (strip l)) lines,
      w\<lparr>trace := trace w @ map (\<lambda>l. Print (skip_warning (strip l)))
                            (filter (\<lambda>l. strip l \<noteq> [] \<and> extract_video_id (strip l) = None) lines)\<rparr>)"
proof (induction lines arbitrary: video_ids w)
  case Nil
  then show ?case by (simp add: List.map_filter_simps)
next
  case (Cons l ls)
  show ?case
  proof (cases "strip l = []")
    case True
    have "extract_video_id [] = None" by code_simp
    with True show ?thesis by (simp add: Cons.IH List.map_filter_simps)
  next
    case False
    have ne: "nonempty (extract_video_id (strip l)) = extract_video_id (strip l)"
      by (rule nonempty_extract)
    show ?thesis
    proof (cases "extract_video_id (strip l)")
      case None
      with False ne show ?thesis
        by (simp add: Cons.IH List.map_filter_simps print_def)
    next
      case (Some a)
      with False ne show ?thesis
        by (simp add: Cons.IH List.map_filter_simps)
    qed
  qed
qed


section \<open>Trimming\<close>

text \<open>
  \<open>strip\<close> removes white space at both ends and nothing else, and it is empty exactly on
  the lines that are white space only. Neither expression can match across white space,
  so that a line and the line stripped parse alike.
\<close>

lemma isspace_not_id_char: "isspace c \<Longrightarrow> \<not> id_char c"
  by (auto simp: isspace_def id_char_def)



lemma group_append_space:
  assumes "list_all isspace ws"
  shows "group (t @ ws) = group t"
proof (cases "11 \<le> length t")
  case True
  then show ?thesis by (simp add: group_def)
next
  case False
  have "\<not> (11 \<le> length (t @ ws) \<and> list_all id_char (take 11 (t @ ws)))"
  proof
    assume a: "11 \<le> length (t @ ws) \<and> list_all id_char (take 11 (t @ ws))"
    then have "11 \<le> length (t @ ws)" by blast
    with False have "ws \<noteq> []" by (cases ws) simp_all
    then obtain c ws' where ws: "ws = c # ws'" by (cases ws) auto
    have "(t @ ws) ! length t = c" using ws by simp
    moreover have "length t < 11" using False by simp
    moreover have "length t < length (t @ ws)" using ws by simp
    moreover have "take 11 (t @ ws) ! length t = (t @ ws) ! length t"
      using \<open>length t < 11\<close> by (rule nth_take)
    ultimately have "take 11 (t @ ws) ! length t = c" by (simp del: take_append)
    moreover have "length t < length (take 11 (t @ ws))" using ws False by simp
    ultimately have "id_char c" using a by (metis list_all_length)
    moreover have "isspace c" using assms ws by simp
    ultimately show False using isspace_not_id_char by blast
  qed
  with False show ?thesis by (simp add: group_def)
qed


lemma match_here_group: "match_here p s = (case strip_prefix p s of None \<Rightarrow> None | Some r \<Rightarrow> group r)"
  by (simp add: match_here_def group_def split: option.splits)

lemma strip_prefix_space_None:
  "list_all isspace ws \<Longrightarrow> p \<noteq> [] \<Longrightarrow> list_all (\<lambda>c. \<not> isspace c) p \<Longrightarrow>
   strip_prefix p ws = None"
  by (cases p; cases ws) auto

lemma match_here_append_space:
  assumes "list_all isspace ws" and "list_all (\<lambda>c. \<not> isspace c) p"
  shows "match_here p (t @ ws) = match_here p t"
  using assms(2)
proof (induction p t rule: strip_prefix.induct)
  case (1 s)
  then show ?case by (simp add: match_here_group group_append_space [OF assms(1)])
next
  case (2 a p)
  have "strip_prefix (a # p) ws = None"
    using assms(1) 2 by (intro strip_prefix_space_None) simp_all
  then show ?case by (simp add: match_here_group)
next
  case (3 a p c cs)
  then show ?case by (simp add: match_here_group)
qed

lemma first_alt_append_space:
  assumes "list_all isspace ws" and "\<forall>p\<in>set ps. list_all (\<lambda>c. \<not> isspace c) p"
  shows "first_alt ps (t @ ws) = first_alt ps t"
  using assms(2)
  by (induction ps) (simp_all add: match_here_append_space [OF assms(1)] split: option.splits)

lemma first_alt_space:
  assumes "isspace c" and "\<forall>p\<in>set ps. p \<noteq> [] \<and> list_all (\<lambda>c. \<not> isspace c) p"
  shows "first_alt ps (c # s) = None"
  using assms(2)
proof (induction ps)
  case Nil
  then show ?case by simp
next
  case (Cons p ps)
  then obtain a p' where p: "p = a # p'" and a: "\<not> isspace a"
    by (cases p) auto
  have "match_here p (c # s) = None"
    using assms(1) a p by (auto simp: match_here_def)
  with Cons show ?case by simp
qed

lemma re_search_dropWhile:
  assumes "\<forall>p\<in>set ps. p \<noteq> [] \<and> list_all (\<lambda>c. \<not> isspace c) p"
  shows "re_search ps (dropWhile isspace s) = re_search ps s"
  by (induction s) (simp_all add: first_alt_space [OF _ assms])

lemma re_search_spaces:
  assumes "\<forall>p\<in>set ps. p \<noteq> [] \<and> list_all (\<lambda>c. \<not> isspace c) p" and "list_all isspace ws"
  shows "re_search ps ws = re_search ps []"
  using assms(2) by (induction ws) (simp_all add: first_alt_space [OF _ assms(1)])

lemma re_search_append_space:
  assumes "\<forall>p\<in>set ps. p \<noteq> [] \<and> list_all (\<lambda>c. \<not> isspace c) p" and "list_all isspace ws"
  shows "re_search ps (t @ ws) = re_search ps t"
proof (induction t)
  case Nil
  then show ?case using re_search_spaces [OF assms] by simp
next
  case (Cons c cs)
  have "first_alt ps ((c # cs) @ ws) = first_alt ps (c # cs)"
    using assms by (intro first_alt_append_space) auto
  with Cons show ?case by (simp split: option.splits)
qed

lemma strip_tail:
  "dropWhile isspace s = strip s @ rev (takeWhile isspace (rev (dropWhile isspace s)))"
proof -
  let ?m = "dropWhile isspace s"
  have "strip s @ rev (takeWhile isspace (rev ?m)) =
        rev (takeWhile isspace (rev ?m) @ dropWhile isspace (rev ?m))"
    by (simp only: strip_def rev_append)
  also have "\<dots> = rev (rev ?m)" by (simp only: takeWhile_dropWhile_id)
  also have "\<dots> = ?m" by simp
  finally show ?thesis by simp
qed

lemma strip_decompose:
  "\<exists>a b. s = a @ strip s @ b \<and> list_all isspace a \<and> list_all isspace b"
proof -
  let ?m = "dropWhile isspace s"
  have 1: "s = takeWhile isspace s @ ?m" by simp
  have 2: "?m = strip s @ rev (takeWhile isspace (rev ?m))"
    by (rule strip_tail)
  have 3: "list_all isspace (takeWhile isspace s)"
    by (simp add: list_all_iff) (meson set_takeWhileD)
  have 4: "list_all isspace (rev (takeWhile isspace (rev ?m)))"
    by (simp add: list_all_iff) (meson set_takeWhileD)
  from 1 2 have "s = takeWhile isspace s @ strip s @ rev (takeWhile isspace (rev ?m))" by simp
  with 3 4 show ?thesis by blast
qed

lemma strip_empty_iff: "strip s = [] \<longleftrightarrow> list_all isspace s"
proof
  assume "strip s = []"
  then have "dropWhile isspace s = rev (takeWhile isspace (rev (dropWhile isspace s)))"
    using strip_tail [of s] by simp
  then have a: "\<forall>x\<in>set (dropWhile isspace s). isspace x"
    by (metis set_rev set_takeWhileD)
  have "dropWhile isspace s = []"
  proof (rule ccontr)
    assume n: "dropWhile isspace s \<noteq> []"
    then have "\<not> isspace (hd (dropWhile isspace s))" by (rule hd_dropWhile)
    moreover have "hd (dropWhile isspace s) \<in> set (dropWhile isspace s)" using n by simp
    ultimately show False using a by blast
  qed
  then show "list_all isspace s" by (simp add: dropWhile_eq_Nil_conv list_all_iff)
next
  assume "list_all isspace s"
  then have d: "dropWhile isspace s = []" by (induction s) simp_all
  show "strip s = []" unfolding strip_def d by simp
qed

lemma strip_ends:
  "strip s = [] \<or> (\<not> isspace (hd (strip s)) \<and> \<not> isspace (last (strip s)))"
proof (cases "strip s = []")
  case True then show ?thesis by simp
next
  case False
  let ?m = "dropWhile isspace s"
  let ?r = "dropWhile isspace (rev ?m)"
  have r: "?r \<noteq> []" using False by (simp add: strip_def)
  have l: "\<not> isspace (hd ?r)" using r by (rule hd_dropWhile)
  have "last (strip s) = hd ?r" using r by (simp add: strip_def last_rev)
  with l have e: "\<not> isspace (last (strip s))" by simp
  have m: "?m \<noteq> []" using r by (cases "?m") simp_all
  have hm: "\<not> isspace (hd ?m)" using m by (rule hd_dropWhile)
  have "\<exists>b. ?m = strip s @ b"
    using strip_tail [of s] by blast
  then obtain b where "?m = strip s @ b" by blast
  then have "hd ?m = hd (strip s)" using False by (metis hd_append2)
  with hm have "\<not> isspace (hd (strip s))" by simp
  with e show ?thesis by simp
qed

lemma patterns_no_space:
  "\<forall>p\<in>set watch_patterns. p \<noteq> [] \<and> list_all (\<lambda>c. \<not> isspace c) p"
  "\<forall>p\<in>set shorts_patterns. p \<noteq> [] \<and> list_all (\<lambda>c. \<not> isspace c) p"
  by (simp_all add: watch_patterns_def shorts_patterns_def isspace_def)

lemma re_search_strip:
  assumes "\<forall>p\<in>set ps. p \<noteq> [] \<and> list_all (\<lambda>c. \<not> isspace c) p"
  shows "re_search ps (strip s) = re_search ps s"
proof -
  obtain a b where s: "s = a @ strip s @ b" and a: "list_all isspace a" and b: "list_all isspace b"
    using strip_decompose by blast
  have "re_search ps (strip s @ b) = re_search ps (strip s)"
    using assms b by (rule re_search_append_space)
  moreover have "re_search ps (a @ strip s @ b) = re_search ps (strip s @ b)"
    using a by (induction a) (simp_all add: first_alt_space [OF _ assms])
  ultimately show ?thesis using s by metis
qed

lemma extract_strip: "extract_video_id (strip s) = extract_video_id s"
  unfolding extract_video_id_def re_search_strip [OF patterns_no_space(1)]
    re_search_strip [OF patterns_no_space(2)]
  by (rule refl)

text \<open>
  Claim C2. The loop over the lines collects, in order, the identifier of every line
  that parses to one, and prints one skip warning, in order and with the line trimmed,
  for every line that does not parse and is not white space only; blank lines add to
  neither. What is trimmed is white space at the two ends of the line and nothing else.
  On the three lines of the example it collects \<open>dQw4w9WgXcQ\<close> and \<open>abc12345678\<close> and
  prints the one warning for \<open>not-a-url\<close>; so it does when the lines carry spaces, tabs
  and line ends and blank lines stand between them.
\<close>

theorem read_links_counts:
  "fst (read_links lines [] w) = List.map_filter extract_video_id lines
   \<and> length (fst (read_links lines [] w)) =
       length (filter (\<lambda>l. extract_video_id l \<noteq> None) lines)
   \<and> trace (snd (read_links lines [] w)) =
       trace w @ map (\<lambda>l. Print (''Warning: Could not extract video ID from URL: ''
                                   @ strip l @ ''. Skipping.''))
                   (filter (\<lambda>l. \<not> list_all isspace l \<and> extract_video_id l = None) lines)
   \<and> length (trace (snd (read_links lines [] w))) =
       length (trace w)
         + length (filter (\<lambda>l. \<not> list_all isspace l \<and> extract_video_id l = None) lines)
   \<and> (\<exists>a b. l = a @ strip l @ b \<and> list_all isspace a \<and> list_all isspace b)
   \<and> (strip l = [] \<or> (\<not> isspace (hd (strip l)) \<and> \<not> isspace (last (strip l))))
   \<and> fst (read_links [''https://youtu.be/dQw4w9WgXcQ'', ''not-a-url'',
                        ''https://www.youtube.com/shorts/abc12345678''] [] w) =
       [''dQw4w9WgXcQ'', ''abc12345678'']
   \<and> trace (snd (read_links [''https://youtu.be/dQw4w9WgXcQ'', ''not-a-url'',
                               ''https://www.youtube.com/shorts/abc12345678''] [] w)) =
       trace w @ [Print ''Warning: Could not extract video ID from URL: not-a-url. Skipping.'']
   \<and> fst (read_links [''  https://youtu.be/dQw4w9WgXcQ'' @ [CHR 0x0A],
                        [CHR 0x20, CHR 0x09, CHR 0x0A], [CHR 0x0A], [],
                        CHR 0x09 # ''not-a-url '' @ [CHR 0x0D, CHR 0x0A],
                        ''https://www.youtube.com/shorts/abc12345678''] [] w) =
       [''dQw4w9WgXcQ'', ''abc12345678'']
   \<and> trace (snd (read_links [''  https://youtu.be/dQw4w9WgXcQ'' @ [CHR 0x0A],
                               [CHR 0x20, CHR 0x09, CHR 0x0A], [CHR 0x0A], [],
                               CHR 0x09 # ''not-a-url '' @ [CHR 0x0D, CHR 0x0A],
                               ''https://www.youtube.com/shorts/abc12345678''] [] w)) =
       trace w @ [Print ''Warning: Could not extract video ID from URL: not-a-url. Skipping.'']"
proof -
  have mf: "List.map_filter (\<lambda>l. extract_video_id (strip l)) xs = List.map_filter extract_video_id xs"
    for xs
    by (simp only: extract_strip)
  have fl: "filter (\<lambda>l. strip l \<noteq> [] \<and> extract_video_id (strip l) = None) xs =
            filter (\<lambda>l. \<not> list_all isspace l \<and> extract_video_id l = None) xs" for xs
    by (simp only: extract_strip strip_empty_iff)
  have sw: "skip_warning u = ''Warning: Could not extract video ID from URL: '' @ u @ ''. Skipping.''"
    for u by (simp add: skip_warning_def)
  have len: "length (List.map_filter f xs) = length (filter (\<lambda>x. f x \<noteq> None) xs)"
    for f :: "string \<Rightarrow> string option" and xs
    by (induction xs) (auto simp: List.map_filter_simps split: option.splits)
  have c1: "fst (read_links lines [] w) = List.map_filter extract_video_id lines"
    by (simp only: read_links_eq fst_conv append_Nil mf)
  have c2: "length (fst (read_links lines [] w)) =
       length (filter (\<lambda>l. extract_video_id l \<noteq> None) lines)"
    by (simp only: c1 len)
  have c3: "trace (snd (read_links xs [] w)) =
       trace w @ map (\<lambda>l. Print (''Warning: Could not extract video ID from URL: ''
                                   @ strip l @ ''. Skipping.''))
                   (filter (\<lambda>l. \<not> list_all isspace l \<and> extract_video_id l = None) xs)" for xs
    by (simp add: read_links_eq fl sw del: filter.simps)
  have c4: "length (trace (snd (read_links lines [] w))) =
       length (trace w)
         + length (filter (\<lambda>l. \<not> list_all isspace l \<and> extract_video_id l = None) lines)"
    by (simp only: c3 length_append length_map)
  have e1: "extract_video_id ''https://youtu.be/dQw4w9WgXcQ'' = Some ''dQw4w9WgXcQ''" by code_simp
  have e2: "extract_video_id ''not-a-url'' = None" by code_simp
  have e3: "extract_video_id ''https://www.youtube.com/shorts/abc12345678'' = Some ''abc12345678''"
    by code_simp
  have b2: "\<not> list_all isspace ''not-a-url''" by code_simp
  have s2: "strip ''not-a-url'' = ''not-a-url''" by code_simp
  have x1: "List.map_filter extract_video_id
              [''https://youtu.be/dQw4w9WgXcQ'', ''not-a-url'',
               ''https://www.youtube.com/shorts/abc12345678''] = [''dQw4w9WgXcQ'', ''abc12345678'']"
    by (simp add: List.map_filter_simps e1 e2 e3)
  have f1: "filter (\<lambda>l. \<not> list_all isspace l \<and> extract_video_id l = None)
              [''https://youtu.be/dQw4w9WgXcQ'', ''not-a-url'',
               ''https://www.youtube.com/shorts/abc12345678''] = [''not-a-url'']"
    by (simp only: filter.simps e1 e2 e3 b2) simp
  have g1: "extract_video_id (''  https://youtu.be/dQw4w9WgXcQ'' @ [CHR 0x0A]) = Some ''dQw4w9WgXcQ''"
    by code_simp
  have g2: "extract_video_id [CHR 0x20, CHR 0x09, CHR 0x0A] = None" by code_simp
  have g3: "extract_video_id [CHR 0x0A] = None" by code_simp
  have g4: "extract_video_id [] = None" by code_simp
  have g5: "extract_video_id (CHR 0x09 # ''not-a-url '' @ [CHR 0x0D, CHR 0x0A]) = None" by code_simp
  have h2: "list_all isspace [CHR 0x20, CHR 0x09, CHR 0x0A]" by code_simp
  have h3: "list_all isspace [CHR 0x0A]" by code_simp
  have h5: "\<not> list_all isspace (CHR 0x09 # ''not-a-url '' @ [CHR 0x0D, CHR 0x0A])" by code_simp
  have t5: "strip (CHR 0x09 # ''not-a-url '' @ [CHR 0x0D, CHR 0x0A]) = ''not-a-url''" by code_simp
  have x2: "List.map_filter extract_video_id
              [''  https://youtu.be/dQw4w9WgXcQ'' @ [CHR 0x0A],
               [CHR 0x20, CHR 0x09, CHR 0x0A], [CHR 0x0A], [],
               CHR 0x09 # ''not-a-url '' @ [CHR 0x0D, CHR 0x0A],
               ''https://www.youtube.com/shorts/abc12345678''] = [''dQw4w9WgXcQ'', ''abc12345678'']"
    by (simp only: List.map_filter_simps g1 g2 g3 g4 g5 e3 option.case)
  have f2: "filter (\<lambda>l. \<not> list_all isspace l \<and> extract_video_id l = None)
              [''  https://youtu.be/dQw4w9WgXcQ'' @ [CHR 0x0A],
               [CHR 0x20, CHR 0x09, CHR 0x0A], [CHR 0x0A], [],
               CHR 0x09 # ''not-a-url '' @ [CHR 0x0D, CHR 0x0A],
               ''https://www.youtube.com/shorts/abc12345678''] =
            [CHR 0x09 # ''not-a-url '' @ [CHR 0x0D, CHR 0x0A]]"
    by (simp only: filter.simps g1 g2 g3 g4 g5 e3 h2 h3 h5 list.pred_inject(1)) simp
  have c7: "fst (read_links [''https://youtu.be/dQw4w9WgXcQ'', ''not-a-url'',
                        ''https://www.youtube.com/shorts/abc12345678''] [] w) =
       [''dQw4w9WgXcQ'', ''abc12345678'']"
    by (simp only: read_links_eq fst_conv append_Nil mf x1)
  have c8: "trace (snd (read_links [''https://youtu.be/dQw4w9WgXcQ'', ''not-a-url'',
                               ''https://www.youtube.com/shorts/abc12345678''] [] w)) =
       trace w @ [Print ''Warning: Could not extract video ID from URL: not-a-url. Skipping.'']"
    by (simp only: c3 f1 list.map s2) simp
  have c9: "fst (read_links [''  https://youtu.be/dQw4w9WgXcQ'' @ [CHR 0x0A],
                        [CHR 0x20, CHR 0x09, CHR 0x0A], [CHR 0x0A], [],
                        CHR 0x09 # ''not-a-url '' @ [CHR 0x0D, CHR 0x0A],
                        ''https://www.youtube.com/shorts/abc12345678''] [] w) =
       [''dQw4w9WgXcQ'', ''abc12345678'']"
    by (simp only: read_links_eq fst_conv append_Nil mf x2)
  have c10: "trace (snd (read_links [''  https://youtu.be/dQw4w9WgXcQ'' @ [CHR 0x0A],
                               [CHR 0x20, CHR 0x09, CHR 0x0A], [CHR 0x0A], [],
                               CHR 0x09 # ''not-a-url '' @ [CHR 0x0D, CHR 0x0A],
                               ''https://www.youtube.com/shorts/abc12345678''] [] w)) =
       trace w @ [Print ''Warning: Could not extract video ID from URL: not-a-url. Skipping.'']"
    by (simp only: c3 f2 list.map t5) simp
  from c1 c2 c3 [of lines] c4 strip_decompose [of l] strip_ends [of l] c7 c8 c9 c10
  show ?thesis by (intro conjI)
qed

section \<open>\<open>main\<close>: the exits before authentication\<close>

lemma calls_append [simp]: "calls (xs @ ys) = calls xs @ calls ys"
  by (simp add: calls_def)

lemma calls_prints [simp]: "calls (map (\<lambda>x. Print (f x)) xs) = []"
  by (induction xs) (simp_all add: calls_def)

lemma calls_Cons [simp]: "calls (e # es) = (if is_print e then calls es else e # calls es)"
  by (simp add: calls_def)

lemma calls_Nil [simp]: "calls [] = []"
  by (simp add: calls_def)

text \<open>
  Claim C10. When \<open>yt_links.txt\<close> does not exist, \<open>main\<close> prints the two lines of the
  error and returns: nothing else is printed, no call leaves the script, and the
  credentials file and the remote service are as before.
\<close>

theorem main_links_file_missing:
  "links_file E = None \<Longrightarrow>
     main E w =
       (Inr (),
        w\<lparr>trace := trace w @
           [Print ''Error: 'yt_links.txt' not found in the current directory.'',
            Print ''Please create this file and add YouTube video URLs, one per line.'']\<rparr>)
     \<and> calls (trace (snd (main E w))) = calls (trace w)"
  by (simp add: main_def print_def quoted_def YT_LINKS_FILE_def)

theorem main_links_file_missing_witness:
  "links_file (demo_env\<lparr>links_file := None\<rparr>) = None
   \<and> main (demo_env\<lparr>links_file := None\<rparr>) demo_world =
       (Inr (),
        demo_world\<lparr>trace := trace demo_world @
           [Print ''Error: 'yt_links.txt' not found in the current directory.'',
            Print ''Please create this file and add YouTube video URLs, one per line.'']\<rparr>)
   \<and> calls (trace (snd (main (demo_env\<lparr>links_file := None\<rparr>) demo_world))) = calls (trace demo_world)"
  using main_links_file_missing [of "demo_env\<lparr>links_file := None\<rparr>" demo_world]
  by simp

lemma map_filter_all_None: "\<forall>x\<in>set xs. f x = None \<Longrightarrow> List.map_filter f xs = []"
  by (induction xs) (simp_all add: List.map_filter_simps)

text \<open>
  Claim C4. When the file exists and none of its lines parses to an identifier (no
  line, blank lines, unparsable lines), \<open>main\<close> prints a skip warning for each line that
  is not blank, then the message that no valid link was found, and returns: no call
  leaves the script, so nothing is loaded, refreshed, authorised, created or inserted,
  and the credentials file and the remote service are as before.
\<close>

theorem main_no_input:
  assumes "links_file E = Some lines"
    and "\<forall>l\<in>set lines. extract_video_id (strip l) = None"
  shows "main E w =
       (Inr (),
        w\<lparr>trace := trace w @ map (\<lambda>l. Print (skip_warning (strip l)))
                               (filter (\<lambda>l. strip l \<noteq> []) lines)
                   @ [Print ''No valid YouTube video links found in 'yt_links.txt'. Exiting.'']\<rparr>)
     \<and> calls (trace (snd (main E w))) = calls (trace w)"
proof -
  have ids: "List.map_filter (\<lambda>l. extract_video_id (strip l)) lines = []"
    using assms(2) by (rule map_filter_all_None)
  have flt: "filter (\<lambda>l. strip l \<noteq> [] \<and> extract_video_id (strip l) = None) lines =
             filter (\<lambda>l. strip l \<noteq> []) lines"
    using assms(2) by (intro filter_cong) auto
  show ?thesis
    using assms(1)
    by (simp add: main_def read_links_eq ids flt print_def quoted_def YT_LINKS_FILE_def)
qed

theorem main_no_input_witness:
  "main (demo_env\<lparr>links_file := Some [''not-a-url'', ''  '', ''https://example.org/watch'']\<rparr>)
        demo_world =
     (Inr (),
      demo_world\<lparr>trace :=
        [Print (skip_warning ''not-a-url''), Print (skip_warning ''https://example.org/watch''),
         Print ''No valid YouTube video links found in 'yt_links.txt'. Exiting.'']\<rparr>)
   \<and> calls (trace (snd (main (demo_env\<lparr>links_file := Some [''not-a-url'', ''  '', ''https://example.org/watch'']\<rparr>)
        demo_world))) = []"
proof -
  have e1: "extract_video_id (strip ''not-a-url'') = None" by code_simp
  have e2: "extract_video_id (strip ''  '') = None" by code_simp
  have e3: "extract_video_id (strip ''https://example.org/watch'') = None" by code_simp
  have s1: "strip ''not-a-url'' = ''not-a-url''" by code_simp
  have s2: "strip ''  '' = []" by code_simp
  have s3: "strip ''https://example.org/watch'' = ''https://example.org/watch''" by code_simp
  have h: "\<forall>l\<in>set [''not-a-url'', ''  '', ''https://example.org/watch''].
             extract_video_id (strip l) = None"
    using e1 e2 e3 by simp
  show ?thesis
    using main_no_input [of "demo_env\<lparr>links_file := Some [''not-a-url'', ''  '', ''https://example.org/watch'']\<rparr>"
        "[''not-a-url'', ''  '', ''https://example.org/watch'']" demo_world, OF _ h]
    by (simp add: s1 s2 s3 demo_world_def)
qed


section \<open>The handler of HTTP errors\<close>

lemma contains_iff: "contains sub s \<longleftrightarrow> (\<exists>pre suf. s = pre @ sub @ suf)"
proof (induction s)
  case Nil
  then show ?case by auto
next
  case (Cons c cs)
  show ?case
  proof
    assume "contains sub (c # cs)"
    then consider "take (length sub) (c # cs) = sub" | "contains sub cs" by auto
    then show "\<exists>pre suf. c # cs = pre @ sub @ suf"
    proof cases
      case 1
      then have "c # cs = [] @ sub @ drop (length sub) (c # cs)"
        by (metis append_Nil append_take_drop_id)
      then show ?thesis by blast
    next
      case 2
      then obtain pre suf where "cs = pre @ sub @ suf" using Cons.IH by auto
      then have "c # cs = (c # pre) @ sub @ suf" by simp
      then show ?thesis by blast
    qed
  next
    assume "\<exists>pre suf. c # cs = pre @ sub @ suf"
    then obtain pre suf where e: "c # cs = pre @ sub @ suf" by auto
    show "contains sub (c # cs)"
    proof (cases pre)
      case Nil
      then have "take (length sub) (c # cs) = sub" using e by simp
      then show ?thesis by simp
    next
      case (Cons a pre')
      then have "cs = pre' @ sub @ suf" using e by simp
      then have "contains sub cs" using Cons.IH by blast
      then show ?thesis by simp
    qed
  qed
qed

text \<open>
  Claim C6, amended. When the insertion raises an HTTP error, \<open>add_video_to_playlist\<close>
  runs the handler after the call. The handler reports status 404 as not found, whatever
  the body; for a body that is text, it reports status 400 as a duplicate when the body
  in lower case contains \<open>duplicate\<close>, and every other error by the message that
  carries the status and the body. It returns \<open>False\<close> in the three cases.
\<close>

theorem add_video_http_error_classes:
  assumes "playlistItems_insert E youtube (remote w) playlist_id video_id =
             (RaisesHttpError status content, r)"
  shows "add_video_to_playlist E youtube playlist_id video_id w =
           http_error_handler status content video_id
             (record_call (PlaylistItemsInsert playlist_id video_id)
               ((print (''Adding video ID '' @ quoted video_id @ '' to playlist ''
                          @ quoted playlist_id @ ''...'') w)\<lparr>remote := r\<rparr>))
     \<and> (status = 404 \<longrightarrow>
          http_error_handler status content video_id w' =
            (Inr False, print (not_found_warning video_id) w'))
     \<and> (status = 400 \<and> contains ''duplicate'' (lower body) \<longrightarrow>
          http_error_handler status (Utf8 body) video_id w' =
            (Inr False, print (duplicate_warning video_id) w'))
     \<and> (status \<noteq> 404 \<and> \<not> (status = 400 \<and> contains ''duplicate'' (lower body)) \<longrightarrow>
          http_error_handler status (Utf8 body) video_id w' =
            (Inr False, print (http_error_message status video_id body) w'))"
proof (intro conjI impI)
  show "add_video_to_playlist E youtube playlist_id video_id w =
           http_error_handler status content video_id
             (record_call (PlaylistItemsInsert playlist_id video_id)
               ((print (''Adding video ID '' @ quoted video_id @ '' to playlist ''
                          @ quoted playlist_id @ ''...'') w)\<lparr>remote := r\<rparr>))"
    using assms by (simp add: add_video_to_playlist_def print_def)
next
  assume "status = 404"
  then show "http_error_handler status content video_id w' =
            (Inr False, print (not_found_warning video_id) w')"
    by (simp add: http_error_handler_def)
next
  assume "status = 400 \<and> contains ''duplicate'' (lower body)"
  then show "http_error_handler status (Utf8 body) video_id w' =
            (Inr False, print (duplicate_warning video_id) w')"
    by (simp add: http_error_handler_def decode_def)
next
  assume "status \<noteq> 404 \<and> \<not> (status = 400 \<and> contains ''duplicate'' (lower body))"
  then show "http_error_handler status (Utf8 body) video_id w' =
            (Inr False, print (http_error_message status video_id body) w')"
    by (auto simp add: http_error_handler_def decode_def)
qed

text \<open>
  Claim C6 as stated fails: the body \<open>Duplicate playlist item.\<close> does not contain
  \<open>duplicate\<close>, so that the specification's classification of status 400 with this body
  is \<open>ApiError\<close>, and the handler reports a duplicate.
\<close>

theorem http_error_not_case_sensitive:
  "http_error_handler 400 (Utf8 ''Duplicate playlist item.'') ''dQw4w9WgXcQ'' demo_world =
     (Inr False, print (duplicate_warning ''dQw4w9WgXcQ'') demo_world)
   \<and> \<not> contains ''duplicate'' ''Duplicate playlist item.''
   \<and> spec_classify 400 ''Duplicate playlist item.'' = ApiError
   \<and> http_error_handler 400 (Utf8 ''Duplicate playlist item.'') ''dQw4w9WgXcQ'' demo_world \<noteq>
       (Inr False,
        print (failure_message (spec_classify 400 ''Duplicate playlist item.'') 400
                 ''dQw4w9WgXcQ'' ''Duplicate playlist item.'') demo_world)"
proof -
  have l: "contains ''duplicate'' (lower ''Duplicate playlist item.'')" by code_simp
  have n: "\<not> contains ''duplicate'' ''Duplicate playlist item.''" by code_simp
  have h: "http_error_handler 400 (Utf8 ''Duplicate playlist item.'') ''dQw4w9WgXcQ'' demo_world =
     (Inr False, print (duplicate_warning ''dQw4w9WgXcQ'') demo_world)"
    using l by (simp add: http_error_handler_def decode_def)
  have c: "spec_classify 400 ''Duplicate playlist item.'' = ApiError"
    using n by (simp add: spec_classify_def)
  have d: "duplicate_warning ''dQw4w9WgXcQ'' \<noteq>
           http_error_message 400 ''dQw4w9WgXcQ'' ''Duplicate playlist item.''"
    by (simp add: duplicate_warning_def http_error_message_def)
  have p: "print a demo_world \<noteq> print b demo_world" if "a \<noteq> b" for a b
    using that by (simp add: print_def demo_world_def)
  show ?thesis
    using n c d by (simp add: h failure_message_def p)
qed


theorem add_video_http_error_classes_witness:
  "add_video_to_playlist demo_env (Service demo_credentials) ''PL0123456789'' ''gone0000000''
       demo_world =
     (Inr False,
      demo_world\<lparr>trace :=
        [Print ''Adding video ID 'gone0000000' to playlist 'PL0123456789'...'',
         PlaylistItemsInsert ''PL0123456789'' ''gone0000000'',
         Print (not_found_warning ''gone0000000'')]\<rparr>)
   \<and> contains ''duplicate'' (lower ''Duplicate playlist item.'')
   \<and> add_video_to_playlist demo_env (Service demo_credentials) ''PL0123456789'' ''dQw4w9WgXcQ''
       (demo_world\<lparr>remote := [''dQw4w9WgXcQ'']\<rparr>) =
     (Inr False,
      demo_world\<lparr>trace :=
        [Print ''Adding video ID 'dQw4w9WgXcQ' to playlist 'PL0123456789'...'',
         PlaylistItemsInsert ''PL0123456789'' ''dQw4w9WgXcQ'',
         Print (duplicate_warning ''dQw4w9WgXcQ'')], remote := [''dQw4w9WgXcQ'']\<rparr>)
   \<and> \<not> contains ''duplicate'' (lower ''quotaExceeded'')
   \<and> add_video_to_playlist demo_env (Service demo_credentials) ''PL0123456789'' ''dQw4w9WgXcQ''
       (demo_world\<lparr>remote := [''a'', ''b'', ''c'']\<rparr>) =
     (Inr False,
      demo_world\<lparr>trace :=
        [Print ''Adding video ID 'dQw4w9WgXcQ' to playlist 'PL0123456789'...'',
         PlaylistItemsInsert ''PL0123456789'' ''dQw4w9WgXcQ'',
         Print (http_error_message 403 ''dQw4w9WgXcQ'' ''quotaExceeded'')],
        remote := [''a'', ''b'', ''c'']\<rparr>)"
proof -
  let ?yt = "Service demo_credentials"
  let ?w2 = "demo_world\<lparr>remote := [''dQw4w9WgXcQ'']\<rparr>"
  let ?w3 = "demo_world\<lparr>remote := [''a'', ''b'', ''c'']\<rparr>"
  have l: "contains ''duplicate'' (lower ''Duplicate playlist item.'')" by code_simp
  have n: "\<not> contains ''duplicate'' (lower ''quotaExceeded'')" by code_simp
  have o1: "playlistItems_insert demo_env ?yt (remote demo_world) ''PL0123456789'' ''gone0000000''
              = (RaisesHttpError 404 (Utf8 ''Video not found.''), [])"
    by (simp add: demo_env_def demo_items_insert_def demo_world_def)
  have o2: "playlistItems_insert demo_env ?yt (remote ?w2) ''PL0123456789'' ''dQw4w9WgXcQ''
              = (RaisesHttpError 400 (Utf8 ''Duplicate playlist item.''), [''dQw4w9WgXcQ''])"
    by (simp add: demo_env_def demo_items_insert_def demo_world_def)
  have o3: "playlistItems_insert demo_env ?yt (remote ?w3) ''PL0123456789'' ''dQw4w9WgXcQ''
              = (RaisesHttpError 403 (Utf8 ''quotaExceeded''), [''a'', ''b'', ''c''])"
    by (simp add: demo_env_def demo_items_insert_def demo_world_def)
  note t1 = add_video_http_error_classes [OF o1, where w' =
      "record_call (PlaylistItemsInsert ''PL0123456789'' ''gone0000000'')
         ((print (''Adding video ID '' @ quoted ''gone0000000'' @ '' to playlist ''
                    @ quoted ''PL0123456789'' @ ''...'') demo_world)\<lparr>remote := []\<rparr>)"]
  note t2 = add_video_http_error_classes [OF o2, where body = "''Duplicate playlist item.''" and w' =
      "record_call (PlaylistItemsInsert ''PL0123456789'' ''dQw4w9WgXcQ'')
         ((print (''Adding video ID '' @ quoted ''dQw4w9WgXcQ'' @ '' to playlist ''
                    @ quoted ''PL0123456789'' @ ''...'') ?w2)\<lparr>remote := [''dQw4w9WgXcQ'']\<rparr>)"]
  note t3 = add_video_http_error_classes [OF o3, where body = "''quotaExceeded''" and w' =
      "record_call (PlaylistItemsInsert ''PL0123456789'' ''dQw4w9WgXcQ'')
         ((print (''Adding video ID '' @ quoted ''dQw4w9WgXcQ'' @ '' to playlist ''
                    @ quoted ''PL0123456789'' @ ''...'') ?w3)\<lparr>remote := [''a'', ''b'', ''c'']\<rparr>)"]
  have c1: "add_video_to_playlist demo_env ?yt ''PL0123456789'' ''gone0000000'' demo_world =
     (Inr False,
      demo_world\<lparr>trace :=
        [Print ''Adding video ID 'gone0000000' to playlist 'PL0123456789'...'',
         PlaylistItemsInsert ''PL0123456789'' ''gone0000000'',
         Print (not_found_warning ''gone0000000'')]\<rparr>)"
    using t1 by (simp add: print_def record_call_def quoted_def demo_world_def)
  have c2: "add_video_to_playlist demo_env ?yt ''PL0123456789'' ''dQw4w9WgXcQ'' ?w2 =
     (Inr False,
      demo_world\<lparr>trace :=
        [Print ''Adding video ID 'dQw4w9WgXcQ' to playlist 'PL0123456789'...'',
         PlaylistItemsInsert ''PL0123456789'' ''dQw4w9WgXcQ'',
         Print (duplicate_warning ''dQw4w9WgXcQ'')], remote := [''dQw4w9WgXcQ'']\<rparr>)"
    using t2 l by (simp add: print_def record_call_def quoted_def demo_world_def)
  have c3: "add_video_to_playlist demo_env ?yt ''PL0123456789'' ''dQw4w9WgXcQ'' ?w3 =
     (Inr False,
      demo_world\<lparr>trace :=
        [Print ''Adding video ID 'dQw4w9WgXcQ' to playlist 'PL0123456789'...'',
         PlaylistItemsInsert ''PL0123456789'' ''dQw4w9WgXcQ'',
         Print (http_error_message 403 ''dQw4w9WgXcQ'' ''quotaExceeded'')],
        remote := [''a'', ''b'', ''c'']\<rparr>)"
    using t3 n by (simp add: print_def record_call_def quoted_def demo_world_def)
  from c1 l c2 n c3 show ?thesis by (intro conjI)
qed

section \<open>The insertion loop\<close>

lemma print_sel [simp]:
  "trace (print s w) = trace w @ [Print s]"
  "remote (print s w) = remote w"
  "credentials_file (print s w) = credentials_file w"
  by (simp_all add: print_def)

lemma record_call_sel [simp]:
  "trace (record_call e w) = trace w @ [e]"
  "remote (record_call e w) = remote w"
  "credentials_file (record_call e w) = credentials_file w"
  by (simp_all add: record_call_def)

lemma http_error_handler_readable:
  assumes "status = 404 \<or> content \<noteq> NotUtf8"
  shows "\<exists>w'. http_error_handler status content v w = (Inr False, w')
           \<and> remote w' = remote w \<and> calls (trace w') = calls (trace w)"
proof (cases "status = 404")
  case True
  then show ?thesis by (simp add: http_error_handler_def print_def)
next
  case False
  then obtain body where "content = Utf8 body"
    using assms by (cases content) auto
  then show ?thesis
    using False by (simp add: http_error_handler_def decode_def print_def)
qed

lemma add_video_readable:
  assumes "playlistItems_insert E youtube (remote w) playlist_id v = (out, r)"
    and "readable out"
  shows "\<exists>w'. add_video_to_playlist E youtube playlist_id v w = (Inr (succeeded out), w')
           \<and> remote w' = r
           \<and> calls (trace w') = calls (trace w) @ [PlaylistItemsInsert playlist_id v]"
proof (cases out)
  case (Returns u)
  then show ?thesis
    using assms(1) by (simp add: add_video_to_playlist_def print_def record_call_def)
next
  case (RaisesHttpError status content)
  let ?w2 = "record_call (PlaylistItemsInsert playlist_id v)
               ((print (''Adding video ID '' @ quoted v @ '' to playlist ''
                          @ quoted playlist_id @ ''...'') w)\<lparr>remote := r\<rparr>)"
  have "status = 404 \<or> content \<noteq> NotUtf8"
    using assms(2) RaisesHttpError by simp
  from http_error_handler_readable [OF this, of v ?w2] obtain w' where
    h: "http_error_handler status content v ?w2 = (Inr False, w')"
    and r: "remote w' = remote ?w2" and c: "calls (trace w') = calls (trace ?w2)"
    by blast
  have "add_video_to_playlist E youtube playlist_id v w = (Inr False, w')"
    using assms(1) RaisesHttpError h by (simp add: add_video_to_playlist_def)
  moreover have "remote ?w2 = r" by (simp add: record_call_def print_def)
  moreover have "calls (trace ?w2) = calls (trace w) @ [PlaylistItemsInsert playlist_id v]"
    by (simp add: record_call_def print_def)
  ultimately show ?thesis
    using r c RaisesHttpError by simp
next
  case (Raises e)
  then show ?thesis
    using assms(1) by (simp add: add_video_to_playlist_def print_def record_call_def)
qed

lemma add_videos_all:
  "list_all readable (insert_outcomes E youtube playlist_id ids (remote w)) \<Longrightarrow>
   \<exists>w'. add_videos E youtube playlist_id ids n w =
           (Inr (n + length (filter succeeded
                               (insert_outcomes E youtube playlist_id ids (remote w)))), w')
        \<and> calls (trace w') = calls (trace w) @ map (PlaylistItemsInsert playlist_id) ids"
proof (induction ids arbitrary: n w)
  case Nil
  then show ?case by simp
next
  case (Cons v vs)
  obtain out r where o: "playlistItems_insert E youtube (remote w) playlist_id v = (out, r)"
    by (cases "playlistItems_insert E youtube (remote w) playlist_id v")
  from Cons.prems o have ro: "readable out"
    and rest: "list_all readable (insert_outcomes E youtube playlist_id vs r)"
    by simp_all
  from add_video_readable [OF o ro] obtain w1 where
    a: "add_video_to_playlist E youtube playlist_id v w = (Inr (succeeded out), w1)"
    and r1: "remote w1 = r"
    and c1: "calls (trace w1) = calls (trace w) @ [PlaylistItemsInsert playlist_id v]"
    by blast
  from rest r1 have "list_all readable (insert_outcomes E youtube playlist_id vs (remote w1))"
    by simp
  from Cons.IH [OF this, of "if succeeded out then n + 1 else n"] obtain w' where
    b: "add_videos E youtube playlist_id vs (if succeeded out then n + 1 else n) w1 =
          (Inr ((if succeeded out then n + 1 else n)
                 + length (filter succeeded (insert_outcomes E youtube playlist_id vs (remote w1)))),
           w')"
    and c2: "calls (trace w') = calls (trace w1) @ map (PlaylistItemsInsert playlist_id) vs"
    by blast
  show ?case
    using a b c1 c2 o r1 by (intro exI [of _ w']) simp
qed


text \<open>
  When every error body that the handler reads is text, lines 214 to 222
  return normally, the calls they make are the insertions of all the identifiers, in
  order, whatever the outcomes (success, 404, duplicate, another HTTP error, another
  exception), and the count in the report printed before the last line is the number of
  insertions that returned. The outcomes with status 404, and those with status 400 and
  a text body, among them every duplicate, are outcomes of this kind.
\<close>

theorem fill_playlist_counts:
  assumes "list_all readable (insert_outcomes E youtube playlist_id ids (remote w))"
  shows "fst (fill_playlist E youtube playlist_id ids w) = Inr ()
     \<and> calls (trace (snd (fill_playlist E youtube playlist_id ids w))) =
         calls (trace w) @ map (PlaylistItemsInsert playlist_id) ids
     \<and> last (butlast (trace (snd (fill_playlist E youtube playlist_id ids w)))) =
         Print (CHR 0x0A # ''Finished processing. Added ''
                  @ str_nat (length (filter succeeded
                                       (insert_outcomes E youtube playlist_id ids (remote w))))
                  @ '' out of '' @ str_nat (length ids) @ '' videos to the playlist.'')
     \<and> readable (RaisesHttpError 404 content)
     \<and> readable (RaisesHttpError 400 (Utf8 body))"
proof -
  let ?w0 = "print (CHR 0x0A # ''Starting to add videos to the playlist...'') w"
  have "list_all readable (insert_outcomes E youtube playlist_id ids (remote ?w0))"
    using assms by simp
  from add_videos_all [OF this, of 0] obtain w' where
    a: "add_videos E youtube playlist_id ids 0 ?w0 =
          (Inr (length (filter succeeded
                          (insert_outcomes E youtube playlist_id ids (remote w)))), w')"
    and c: "calls (trace w') = calls (trace ?w0) @ map (PlaylistItemsInsert playlist_id) ids"
    by auto
  show ?thesis
    using a c by (simp add: fill_playlist_def butlast_append finished_message_def)
qed

theorem fill_playlist_counts_witness:
  "insert_outcomes demo_env (Service demo_credentials) ''PL0123456789''
       [''dQw4w9WgXcQ'', ''gone0000000'', ''dQw4w9WgXcQ'', ''abc12345678''] (remote demo_world) =
     [Returns (), RaisesHttpError 404 (Utf8 ''Video not found.''),
      RaisesHttpError 400 (Utf8 ''Duplicate playlist item.''), Returns ()]
   \<and> fst (fill_playlist demo_env (Service demo_credentials) ''PL0123456789''
            [''dQw4w9WgXcQ'', ''gone0000000'', ''dQw4w9WgXcQ'', ''abc12345678''] demo_world) = Inr ()
   \<and> calls (trace (snd (fill_playlist demo_env (Service demo_credentials) ''PL0123456789''
            [''dQw4w9WgXcQ'', ''gone0000000'', ''dQw4w9WgXcQ'', ''abc12345678''] demo_world))) =
       [PlaylistItemsInsert ''PL0123456789'' ''dQw4w9WgXcQ'',
        PlaylistItemsInsert ''PL0123456789'' ''gone0000000'',
        PlaylistItemsInsert ''PL0123456789'' ''dQw4w9WgXcQ'',
        PlaylistItemsInsert ''PL0123456789'' ''abc12345678'']
   \<and> last (butlast (trace (snd (fill_playlist demo_env (Service demo_credentials) ''PL0123456789''
            [''dQw4w9WgXcQ'', ''gone0000000'', ''dQw4w9WgXcQ'', ''abc12345678''] demo_world)))) =
       Print (CHR 0x0A # ''Finished processing. Added 2 out of 4 videos to the playlist.'')"
proof -
  have o: "insert_outcomes demo_env (Service demo_credentials) ''PL0123456789''
       [''dQw4w9WgXcQ'', ''gone0000000'', ''dQw4w9WgXcQ'', ''abc12345678''] (remote demo_world) =
     [Returns (), RaisesHttpError 404 (Utf8 ''Video not found.''),
      RaisesHttpError 400 (Utf8 ''Duplicate playlist item.''), Returns ()]"
    by (simp add: demo_env_def demo_items_insert_def demo_world_def)
  have h: "list_all readable (insert_outcomes demo_env (Service demo_credentials) ''PL0123456789''
       [''dQw4w9WgXcQ'', ''gone0000000'', ''dQw4w9WgXcQ'', ''abc12345678''] (remote demo_world))"
    unfolding o by simp
  have n: "length (filter succeeded
              [Returns (), RaisesHttpError 404 (Utf8 ''Video not found.''),
               RaisesHttpError 400 (Utf8 ''Duplicate playlist item.''), Returns ()]) = 2"
    "length [''dQw4w9WgXcQ'', ''gone0000000'', ''dQw4w9WgXcQ'', ''abc12345678''] = 4"
    by simp_all
  have d: "str_nat 2 = ''2''" "str_nat 4 = ''4''"
    by code_simp+
  show ?thesis
    using fill_playlist_counts [OF h] unfolding o n d by (simp add: demo_world_def)
qed

text \<open>
  Claim C3. The claim fails on the code where an insertion raises an HTTP error whose
  status is not 404 and whose body is not UTF-8: \<open>decode\<close> raises inside the handler, no
  clause catches it, and the loop ends there. With the outcomes 404, then 500 with such a
  body, lines 214 to 222 and \<open>main\<close> raise \<open>UnicodeDecodeError\<close> after the second
  insertion: the third identifier is never inserted and no count is printed.
\<close>

theorem fill_playlist_unreadable_body_stops:
  "fill_playlist demo_garbled_env (Service demo_credentials) ''PL0123456789''
       [''gone0000000'', ''bad00000000'', ''dQw4w9WgXcQ''] demo_world =
     (Inl UnicodeDecodeError,
      demo_world\<lparr>trace :=
        [Print (CHR 0x0A # ''Starting to add videos to the playlist...''),
         Print ''Adding video ID 'gone0000000' to playlist 'PL0123456789'...'',
         PlaylistItemsInsert ''PL0123456789'' ''gone0000000'',
         Print ''Warning: Video ID 'gone0000000' not found or is private/deleted. Skipping.'',
         Print ''Adding video ID 'bad00000000' to playlist 'PL0123456789'...'',
         PlaylistItemsInsert ''PL0123456789'' ''bad00000000'']\<rparr>)
   \<and> main demo_garbled_env demo_world =
     (Inl UnicodeDecodeError,
      demo_world\<lparr>trace :=
        [Print ''Found 3 video IDs to process.'',
         Print ''Initiating new authentication flow...'', LoadClientSecrets, RunLocalServer,
         WriteCredentials ''saved'', Print ''Credentials saved to config/credentials.json'',
         Build,
         Print ''Attempting to create playlist: 'My New Playlist'...'',
         PlaylistsInsert ''My New Playlist'' ''Road trip'' ''unlisted'',
         Print ''Playlist 'My New Playlist' created successfully! ID: PL0123456789'',
         Print (CHR 0x0A # ''Starting to add videos to the playlist...''),
         Print ''Adding video ID 'gone0000000' to playlist 'PL0123456789'...'',
         PlaylistItemsInsert ''PL0123456789'' ''gone0000000'',
         Print ''Warning: Video ID 'gone0000000' not found or is private/deleted. Skipping.'',
         Print ''Adding video ID 'bad00000000' to playlist 'PL0123456789'...'',
         PlaylistItemsInsert ''PL0123456789'' ''bad00000000''],
        credentials_file := Some ''saved''\<rparr>)"
  by code_simp

section \<open>Creating the playlist\<close>

lemma create_playlist_created:
  assumes "playlists_insert E youtube (remote w) title description privacy = (Returns response, r)"
    and "response ''id'' = Some playlist_id"
  shows "fst (create_playlist E youtube title description privacy w) = Inr (Some playlist_id)"
  using assms by (simp add: create_playlist_def)

lemma create_playlist_http_error:
  assumes "playlists_insert E youtube (remote w) title description privacy =
             (RaisesHttpError status (Utf8 body), r)"
  shows "create_playlist E youtube title description privacy w =
           (Inr None,
            w\<lparr>trace := trace w @
                 [Print (''Attempting to create playlist: '' @ quoted title @ ''...''),
                  PlaylistsInsert title description privacy,
                  Print (''An HTTP error '' @ str_nat status
                           @ '' occurred while creating playlist: '' @ body)],
               remote := r\<rparr>)"
  using assms by (simp add: create_playlist_def decode_def print_def record_call_def)

lemma create_playlist_not_created:
  assumes "\<not> succeeded (fst (playlists_insert E youtube (remote w) title description privacy))"
  shows "\<exists>w'. (create_playlist E youtube title description privacy w = (Inr None, w')
               \<or> create_playlist E youtube title description privacy w
                    = (Inl UnicodeDecodeError, w'))
            \<and> filter is_item_insert (trace w') = filter is_item_insert (trace w)"
proof -
  obtain out r where
    o: "playlists_insert E youtube (remote w) title description privacy = (out, r)"
    by (cases "playlists_insert E youtube (remote w) title description privacy")
  show ?thesis
  proof (cases out)
    case (Returns response)
    then show ?thesis using assms o by simp
  next
    case (RaisesHttpError status content)
    then show ?thesis
      using o by (cases content) (simp_all add: create_playlist_def decode_def)
  next
    case (Raises e)
    then show ?thesis
      using o by (simp add: create_playlist_def)
  qed
qed

lemma create_and_fill_not_created:
  assumes "\<not> succeeded (fst (playlists_insert E youtube (remote w) (PLAYLIST_TITLE E)
                                (PLAYLIST_DESCRIPTION E) PLAYLIST_PRIVACY_STATUS))"
  shows "filter is_item_insert (trace (snd (create_and_fill E youtube ids w))) =
           filter is_item_insert (trace w)"
proof -
  from create_playlist_not_created [OF assms] obtain w' where
    c: "create_playlist E youtube (PLAYLIST_TITLE E) (PLAYLIST_DESCRIPTION E)
          PLAYLIST_PRIVACY_STATUS w = (Inr None, w')
        \<or> create_playlist E youtube (PLAYLIST_TITLE E) (PLAYLIST_DESCRIPTION E)
          PLAYLIST_PRIVACY_STATUS w = (Inl UnicodeDecodeError, w')"
    and t: "filter is_item_insert (trace w') = filter is_item_insert (trace w)"
    by blast
  from c show ?thesis
    using t by (auto simp: create_and_fill_def nonempty_def)
qed

lemma load_credentials_no_item_insert:
  "filter is_item_insert (trace (snd (load_credentials E w))) = filter is_item_insert (trace w)"
  by (simp add: load_credentials_def Let_def split: option.splits sum.splits)

lemma refresh_credentials_no_item_insert:
  "filter is_item_insert (trace (snd (refresh_credentials E co w))) =
     filter is_item_insert (trace w)"
  by (simp add: refresh_credentials_def Let_def split: option.splits sum.splits)

lemma interactive_flow_no_item_insert:
  "filter is_item_insert (trace (snd (interactive_flow E w))) = filter is_item_insert (trace w)"
  by (simp add: interactive_flow_def Let_def split: option.splits sum.splits)

lemma save_build_no_item_insert:
  "filter is_item_insert (trace (snd (build c (save_credentials E c w)))) =
     filter is_item_insert (trace w)"
  by (simp add: build_def save_credentials_def)

lemma finish_flow_no_item_insert:
  "filter is_item_insert (trace (snd (finish_flow E r))) = filter is_item_insert (trace (snd r))"
  by (cases r) (simp add: finish_flow_def save_build_no_item_insert
                  split: option.splits sum.splits)

lemma reauthenticate_no_item_insert:
  "filter is_item_insert (trace (snd (reauthenticate E co w))) = filter is_item_insert (trace w)"
  by (simp add: reauthenticate_def finish_flow_no_item_insert interactive_flow_no_item_insert
        save_build_no_item_insert split: option.splits)

lemma get_authenticated_service_no_item_insert:
  "filter is_item_insert (trace (snd (get_authenticated_service E w))) =
     filter is_item_insert (trace w)"
proof -
  obtain co w1 where l: "load_credentials E w = (co, w1)"
    by (cases "load_credentials E w")
  obtain co2 w2 where r: "refresh_credentials E co w1 = (co2, w2)"
    by (cases "refresh_credentials E co w1")
  have t1: "filter is_item_insert (trace w1) = filter is_item_insert (trace w)"
    using load_credentials_no_item_insert [of E w] l by simp
  have t2: "filter is_item_insert (trace w2) = filter is_item_insert (trace w1)"
    using refresh_credentials_no_item_insert [of E co w1] r by simp
  show ?thesis
    using l r t1 t2
    by (simp add: get_authenticated_service_def reauthenticate_no_item_insert build_def
          split: option.splits)
qed


lemma item_insert_prints [simp]: "filter is_item_insert (map (\<lambda>x. Print (f x)) xs) = []"
  by (induction xs) simp_all

lemma main_no_item_insert:
  assumes "\<forall>yt r t d p. \<not> succeeded (fst (playlists_insert E yt r t d p))"
  shows "filter is_item_insert (trace (snd (main E w))) = filter is_item_insert (trace w)"
proof (cases "links_file E")
  case None
  then show ?thesis by (simp add: main_def)
next
  case (Some lines)
  obtain ids w1 where rl: "read_links lines [] w = (ids, w1)"
    by (cases "read_links lines [] w")
  have t1: "filter is_item_insert (trace w1) = filter is_item_insert (trace w)"
    using rl by (auto simp: read_links_eq)
  let ?w2 = "print (''Found '' @ str_nat (length ids) @ '' video IDs to process.'') w1"
  obtain res w3 where g: "get_authenticated_service E ?w2 = (res, w3)"
    by (cases "get_authenticated_service E ?w2")
  have t3: "filter is_item_insert (trace w3) = filter is_item_insert (trace w)"
    using get_authenticated_service_no_item_insert [of E ?w2] g t1 by simp
  have t4: "filter is_item_insert (trace (snd (create_and_fill E yt ids w3))) =
            filter is_item_insert (trace w)" for yt
    using create_and_fill_not_created [of E yt w3 ids] assms t3 by simp
  show ?thesis
    using Some rl g t1 t3 t4
    by (simp add: main_def Let_def split: sum.splits option.splits)
qed

text \<open>
  \<open>create_playlist\<close> returns the \<open>id\<close> of the response when the request
  returns; when the request raises an HTTP error with a text body it prints the status
  and the body and returns \<open>None\<close>. Lines 208 to 222 then print that the creation failed
  and return, having made the one call that creates the playlist. In \<open>main\<close>, when the
  remote service creates no playlist, no insertion is ever attempted.
\<close>

theorem create_playlist_failure_fatal:
  "(playlists_insert E youtube (remote w) title description privacy = (Returns response, r)
      \<and> response ''id'' = Some playlist_id \<longrightarrow>
    fst (create_playlist E youtube title description privacy w) = Inr (Some playlist_id))
   \<and> (playlists_insert E youtube (remote w) title description privacy =
         (RaisesHttpError status (Utf8 body), r) \<longrightarrow>
       create_playlist E youtube title description privacy w =
         (Inr None,
          w\<lparr>trace := trace w @
               [Print (''Attempting to create playlist: '' @ quoted title @ ''...''),
                PlaylistsInsert title description privacy,
                Print (''An HTTP error '' @ str_nat status
                         @ '' occurred while creating playlist: '' @ body)],
             remote := r\<rparr>))
   \<and> (playlists_insert E youtube (remote w) (PLAYLIST_TITLE E) (PLAYLIST_DESCRIPTION E)
          PLAYLIST_PRIVACY_STATUS = (RaisesHttpError status (Utf8 body), r) \<longrightarrow>
       fst (create_and_fill E youtube ids w) = Inr ()
       \<and> last (trace (snd (create_and_fill E youtube ids w))) =
           Print ''Failed to create playlist. Exiting.''
       \<and> calls (trace (snd (create_and_fill E youtube ids w))) =
           calls (trace w) @ [PlaylistsInsert (PLAYLIST_TITLE E) (PLAYLIST_DESCRIPTION E)
                                PLAYLIST_PRIVACY_STATUS])
   \<and> ((\<forall>yt r' t d p. \<not> succeeded (fst (playlists_insert E yt r' t d p))) \<longrightarrow>
       filter is_item_insert (trace (snd (main E w))) = filter is_item_insert (trace w))"
proof (intro conjI impI)
  assume "playlists_insert E youtube (remote w) title description privacy = (Returns response, r)
      \<and> response ''id'' = Some playlist_id"
  then show "fst (create_playlist E youtube title description privacy w) = Inr (Some playlist_id)"
    by (simp add: create_playlist_created)
next
  assume "playlists_insert E youtube (remote w) title description privacy =
         (RaisesHttpError status (Utf8 body), r)"
  then show "create_playlist E youtube title description privacy w =
         (Inr None,
          w\<lparr>trace := trace w @
               [Print (''Attempting to create playlist: '' @ quoted title @ ''...''),
                PlaylistsInsert title description privacy,
                Print (''An HTTP error '' @ str_nat status
                         @ '' occurred while creating playlist: '' @ body)],
             remote := r\<rparr>)"
    by (rule create_playlist_http_error)
next
  assume a: "playlists_insert E youtube (remote w) (PLAYLIST_TITLE E) (PLAYLIST_DESCRIPTION E)
          PLAYLIST_PRIVACY_STATUS = (RaisesHttpError status (Utf8 body), r)"
  note c = create_playlist_http_error [OF a]
  show "fst (create_and_fill E youtube ids w) = Inr ()"
    by (simp add: create_and_fill_def c nonempty_def)
  show "last (trace (snd (create_and_fill E youtube ids w))) =
           Print ''Failed to create playlist. Exiting.''"
    by (simp add: create_and_fill_def c nonempty_def)
  show "calls (trace (snd (create_and_fill E youtube ids w))) =
           calls (trace w) @ [PlaylistsInsert (PLAYLIST_TITLE E) (PLAYLIST_DESCRIPTION E)
                                PLAYLIST_PRIVACY_STATUS]"
    by (simp add: create_and_fill_def c nonempty_def)
next
  assume "\<forall>yt r' t d p. \<not> succeeded (fst (playlists_insert E yt r' t d p))"
  then show "filter is_item_insert (trace (snd (main E w))) = filter is_item_insert (trace w)"
    by (rule main_no_item_insert)
qed

theorem create_playlist_failure_fatal_witness:
  "fst (create_playlist demo_env (Service demo_credentials) ''My New Playlist'' ''Road trip''
          ''unlisted'' demo_world) = Inr (Some ''PL0123456789'')
   \<and> create_playlist demo_reject_env (Service demo_credentials) ''My New Playlist''
         ''Road trip'' ''unlisted'' demo_world =
       (Inr None,
        demo_world\<lparr>trace :=
          [Print ''Attempting to create playlist: 'My New Playlist'...'',
           PlaylistsInsert ''My New Playlist'' ''Road trip'' ''unlisted'',
           Print ''An HTTP error 403 occurred while creating playlist: quotaExceeded'']\<rparr>)
   \<and> fst (create_and_fill demo_reject_env (Service demo_credentials) [''dQw4w9WgXcQ'']
            demo_world) = Inr ()
   \<and> last (trace (snd (create_and_fill demo_reject_env (Service demo_credentials)
                         [''dQw4w9WgXcQ''] demo_world))) =
       Print ''Failed to create playlist. Exiting.''
   \<and> calls (trace (snd (create_and_fill demo_reject_env (Service demo_credentials)
                          [''dQw4w9WgXcQ''] demo_world))) =
       [PlaylistsInsert ''My New Playlist'' ''Road trip'' ''unlisted'']
   \<and> filter is_item_insert (trace (snd (main demo_reject_env demo_world))) = []"
proof -
  let ?yt = "Service demo_credentials"
  have s403: "str_nat 403 = ''403''" by code_simp
  have ti: "PLAYLIST_TITLE demo_reject_env = ''My New Playlist''"
    by code_simp
  have de: "PLAYLIST_DESCRIPTION demo_reject_env = ''Road trip''"
    by code_simp
  have pr: "PLAYLIST_PRIVACY_STATUS = ''unlisted''"
    by (simp add: PLAYLIST_PRIVACY_STATUS_def)
  have o1: "playlists_insert demo_env ?yt (remote demo_world) ''My New Playlist'' ''Road trip''
              ''unlisted'' = (Returns [''id'' \<mapsto> ''PL0123456789''], [])
            \<and> [''id'' \<mapsto> ''PL0123456789''] ''id'' = Some ''PL0123456789''"
    by (simp add: demo_env_def demo_playlists_insert_def)
  have o2: "playlists_insert demo_reject_env ?yt (remote demo_world) ''My New Playlist''
              ''Road trip'' ''unlisted'' = (RaisesHttpError 403 (Utf8 ''quotaExceeded''), [])"
    by (simp add: demo_reject_env_def demo_env_def demo_playlists_reject_def demo_world_def)
  have o3: "playlists_insert demo_reject_env ?yt (remote demo_world)
              (PLAYLIST_TITLE demo_reject_env) (PLAYLIST_DESCRIPTION demo_reject_env)
              PLAYLIST_PRIVACY_STATUS = (RaisesHttpError 403 (Utf8 ''quotaExceeded''), [])"
    unfolding ti de pr by (rule o2)
  have o4: "\<forall>yt r' t d p. \<not> succeeded (fst (playlists_insert demo_reject_env yt r' t d p))"
    by (simp add: demo_reject_env_def demo_env_def demo_playlists_reject_def)
  note t1 = create_playlist_failure_fatal [of demo_env ?yt demo_world "''My New Playlist''"
      "''Road trip''" "''unlisted''" "[''id'' \<mapsto> ''PL0123456789'']" "[]" "''PL0123456789''",
      THEN conjunct1, rule_format, OF o1]
  note t2 = create_playlist_failure_fatal [of demo_reject_env ?yt demo_world
      "''My New Playlist''" "''Road trip''" "''unlisted''" _ "[]" _ 403 "''quotaExceeded''"
      "[''dQw4w9WgXcQ'']"]
  note t2a = t2 [THEN conjunct2, THEN conjunct1, rule_format, OF o2]
  note t2b = t2 [THEN conjunct2, THEN conjunct2, THEN conjunct1, rule_format, OF o3]
  note t2c = t2 [THEN conjunct2, THEN conjunct2, THEN conjunct2, THEN mp, OF o4]
  show ?thesis
    using t1 t2a t2b t2c
    by (simp add: s403 ti de pr quoted_def demo_world_def)
qed


text \<open>
  Claim C5. The claim fails on the code where the creation raises an HTTP error whose
  body is not UTF-8: \<open>decode\<close> raises inside the handler of \<open>create_playlist\<close>, which
  prints neither status nor body and returns nothing, and \<open>main\<close> does not print that
  the creation failed and return: the exception leaves it. No insertion is attempted.
\<close>

theorem create_playlist_unreadable_body_raises:
  "create_playlist demo_garbled_create_env (Service demo_credentials) ''My New Playlist''
       ''Road trip'' ''unlisted'' demo_world =
     (Inl UnicodeDecodeError,
      demo_world\<lparr>trace :=
        [Print ''Attempting to create playlist: 'My New Playlist'...'',
         PlaylistsInsert ''My New Playlist'' ''Road trip'' ''unlisted'']\<rparr>)
   \<and> main demo_garbled_create_env demo_world =
     (Inl UnicodeDecodeError,
      demo_world\<lparr>trace :=
        [Print ''Warning: Could not extract video ID from URL: not-a-url. Skipping.'',
         Print ''Found 2 video IDs to process.'',
         Print ''Initiating new authentication flow...'', LoadClientSecrets, RunLocalServer,
         WriteCredentials ''saved'', Print ''Credentials saved to config/credentials.json'',
         Build,
         Print ''Attempting to create playlist: 'My New Playlist'...'',
         PlaylistsInsert ''My New Playlist'' ''Road trip'' ''unlisted''],
        credentials_file := Some ''saved''\<rparr>)"
  by code_simp

section \<open>The authenticator\<close>

lemma interactive_flow_config_missing:
  "client_secrets_file E = None \<Longrightarrow>
   interactive_flow E w =
     (Inr None,
      w\<lparr>trace := trace w @
        [Print ''Initiating new authentication flow...'',
         Print ''Error: 'config/client_secrets.json' not found.'',
         Print ''Please download your OAuth 2.0 client secrets JSON file from Google Cloud Console'',
         Print ''and rename it to 'client_secrets.json' in the same directory as this script.'']\<rparr>)"
  by (simp add: interactive_flow_def print_def quoted_def CLIENT_SECRETS_FILE_def)

lemma interactive_flow_aborted:
  "client_secrets_file E = Some secrets \<Longrightarrow> from_client_secrets_file E secrets = Inr fl \<Longrightarrow>
   run_local_server E fl = Inl e \<Longrightarrow>
   interactive_flow E w =
     (Inr None,
      w\<lparr>trace := trace w @
        [Print ''Initiating new authentication flow...'', LoadClientSecrets, RunLocalServer,
         Print (''Error during OAuth 2.0 flow: '' @ e),
         Print ''Please ensure 'client_secrets.json' is correctly configured and you have an internet connection.'']\<rparr>)"
  by (simp add: interactive_flow_def print_def record_call_def)

lemma interactive_flow_granted:
  "client_secrets_file E = Some secrets \<Longrightarrow> from_client_secrets_file E secrets = Inr fl \<Longrightarrow>
   run_local_server E fl = Inr c \<Longrightarrow>
   interactive_flow E w =
     (Inr (Some c),
      w\<lparr>trace := trace w @
        [Print ''Initiating new authentication flow...'', LoadClientSecrets, RunLocalServer]\<rparr>)"
  by (simp add: interactive_flow_def print_def record_call_def)

lemma get_authenticated_service_no_credentials:
  "load_credentials E w = (None, w1) \<Longrightarrow>
   get_authenticated_service E w = finish_flow E (interactive_flow E w1)"
  by (simp add: get_authenticated_service_def usable_def refresh_credentials_def
        reauthenticate_def)

lemma get_authenticated_service_unrefreshable:
  "load_credentials E w = (Some c, w1) \<Longrightarrow> \<not> valid c \<Longrightarrow>
   \<not> (expired c \<and> truthy (refresh_token c)) \<Longrightarrow>
   get_authenticated_service E w = finish_flow E (interactive_flow E w1)"
  by (auto simp add: get_authenticated_service_def usable_def refresh_credentials_def
        reauthenticate_def)

lemma get_authenticated_service_refreshed:
  "load_credentials E w = (Some c, w1) \<Longrightarrow> \<not> valid c \<Longrightarrow>
   expired c \<and> truthy (refresh_token c) \<Longrightarrow> refresh E c = Inr c' \<Longrightarrow> valid c' \<Longrightarrow>
   get_authenticated_service E w =
     build c' (save_credentials E c'
       (record_call RefreshToken (print ''Refreshing access token...'' w1)))"
  by (simp add: get_authenticated_service_def usable_def refresh_credentials_def
        reauthenticate_def)

lemma get_authenticated_service_refresh_failed:
  "load_credentials E w = (Some c, w1) \<Longrightarrow> \<not> valid c \<Longrightarrow>
   expired c \<and> truthy (refresh_token c) \<Longrightarrow> refresh E c = Inl e \<Longrightarrow>
   get_authenticated_service E w =
     finish_flow E (interactive_flow E
       (print (''Error refreshing token: '' @ e)
         (record_call RefreshToken (print ''Refreshing access token...'' w1))))"
  by (simp add: get_authenticated_service_def usable_def refresh_credentials_def
        reauthenticate_def)

text \<open>The refresh and the interactive flow are each run at most once.\<close>

lemma count_load:
  "count_list (trace (snd (load_credentials E w))) RefreshToken = count_list (trace w) RefreshToken
   \<and> count_list (trace (snd (load_credentials E w))) RunLocalServer
       = count_list (trace w) RunLocalServer"
  by (simp add: load_credentials_def Let_def split: option.splits sum.splits)

lemma count_refresh:
  "count_list (trace (snd (refresh_credentials E co w))) RefreshToken
     \<le> count_list (trace w) RefreshToken + 1
   \<and> count_list (trace (snd (refresh_credentials E co w))) RunLocalServer
       = count_list (trace w) RunLocalServer"
  by (simp add: refresh_credentials_def Let_def split: option.splits sum.splits)

lemma count_flow:
  "count_list (trace (snd (interactive_flow E w))) RefreshToken = count_list (trace w) RefreshToken
   \<and> count_list (trace (snd (interactive_flow E w))) RunLocalServer
       \<le> count_list (trace w) RunLocalServer + 1"
  by (simp add: interactive_flow_def Let_def split: option.splits sum.splits)

lemma count_save_build:
  "count_list (trace (snd (build c (save_credentials E c w)))) RefreshToken
     = count_list (trace w) RefreshToken
   \<and> count_list (trace (snd (build c (save_credentials E c w)))) RunLocalServer
       = count_list (trace w) RunLocalServer"
  by (simp add: build_def save_credentials_def)

lemma count_finish:
  "count_list (trace (snd (finish_flow E r))) RefreshToken = count_list (trace (snd r)) RefreshToken
   \<and> count_list (trace (snd (finish_flow E r))) RunLocalServer
       = count_list (trace (snd r)) RunLocalServer"
  by (cases r) (simp add: finish_flow_def count_save_build split: option.splits sum.splits)

lemma count_reauthenticate:
  "count_list (trace (snd (reauthenticate E co w))) RefreshToken = count_list (trace w) RefreshToken
   \<and> count_list (trace (snd (reauthenticate E co w))) RunLocalServer
       \<le> count_list (trace w) RunLocalServer + 1"
  using count_flow [of E w]
  by (simp add: reauthenticate_def count_finish count_save_build split: option.splits)

lemma get_authenticated_service_once:
  "count_list (trace (snd (get_authenticated_service E w))) RefreshToken
     \<le> count_list (trace w) RefreshToken + 1
   \<and> count_list (trace (snd (get_authenticated_service E w))) RunLocalServer
       \<le> count_list (trace w) RunLocalServer + 1"
proof -
  obtain co w1 where l: "load_credentials E w = (co, w1)"
    by (cases "load_credentials E w")
  obtain co2 w2 where r: "refresh_credentials E co w1 = (co2, w2)"
    by (cases "refresh_credentials E co w1")
  note c1 = count_load [of E w, unfolded l snd_conv]
  note c2 = count_refresh [of E co w1, unfolded r snd_conv]
  note c3 = count_reauthenticate [of E co2 w2]
  show ?thesis
    using c1 c2 c3 l r
    by (simp add: get_authenticated_service_def build_def split: option.splits)
qed

lemma finish_flow_saved:
  "fst (finish_flow E r) = Inr (Some (Service c)) \<Longrightarrow>
   credentials_file (snd (finish_flow E r)) = Some (to_json E c)"
  by (cases r)
     (auto simp: finish_flow_def build_def save_credentials_def split: option.splits sum.splits)

lemma reauthenticate_saved:
  "fst (reauthenticate E co w) = Inr (Some (Service c)) \<Longrightarrow>
   credentials_file (snd (reauthenticate E co w)) = Some (to_json E c)"
  by (auto simp: reauthenticate_def finish_flow_saved build_def save_credentials_def
      split: option.splits)

lemma get_authenticated_service_saved:
  assumes "usable (fst (load_credentials E w)) = None"
    and "fst (get_authenticated_service E w) = Inr (Some (Service c))"
  shows "credentials_file (snd (get_authenticated_service E w)) = Some (to_json E c)"
proof -
  obtain co w1 where l: "load_credentials E w = (co, w1)"
    by (cases "load_credentials E w")
  obtain co2 w2 where r: "refresh_credentials E co w1 = (co2, w2)"
    by (cases "refresh_credentials E co w1")
  have g: "get_authenticated_service E w = reauthenticate E co2 w2"
    using assms(1) l r by (simp add: get_authenticated_service_def)
  show ?thesis
    using assms(2) unfolding g by (rule reauthenticate_saved)
qed


text \<open>
  Claim C7. Let the credentials loaded at line 60 be absent or not valid. The
  interactive flow prints its instructions and returns \<open>None\<close> when the client secrets
  file is absent, and prints the error and returns \<open>None\<close> when \<open>run_local_server\<close>
  raises. It is what \<open>get_authenticated_service\<close> runs when there are no credentials or
  when they cannot be refreshed. Expired credentials with a refresh token are refreshed
  first: when the refresh gives valid credentials these are saved and used, with no
  interactive flow, and when it raises the interactive flow is run. In every run the
  refresh and the flow each happen at most once, and whenever a service is returned the
  credentials file holds the credentials it was built from.
\<close>

theorem authenticator_paths:
  assumes "load_credentials E w = (co, w1)" and "usable co = None"
  shows "(client_secrets_file E = None \<longrightarrow>
            interactive_flow E w' =
              (Inr None,
               w'\<lparr>trace := trace w' @
                 [Print ''Initiating new authentication flow...'',
                  Print ''Error: 'config/client_secrets.json' not found.'',
                  Print ''Please download your OAuth 2.0 client secrets JSON file from Google Cloud Console'',
                  Print ''and rename it to 'client_secrets.json' in the same directory as this script.'']\<rparr>))
     \<and> (client_secrets_file E = Some secrets \<and> from_client_secrets_file E secrets = Inr fl
          \<and> run_local_server E fl = Inl e \<longrightarrow>
            interactive_flow E w' =
              (Inr None,
               w'\<lparr>trace := trace w' @
                 [Print ''Initiating new authentication flow...'', LoadClientSecrets,
                  RunLocalServer, Print (''Error during OAuth 2.0 flow: '' @ e),
                  Print ''Please ensure 'client_secrets.json' is correctly configured and you have an internet connection.'']\<rparr>))
     \<and> (co = None \<longrightarrow>
            get_authenticated_service E w = finish_flow E (interactive_flow E w1))
     \<and> (co = Some c \<and> \<not> (expired c \<and> truthy (refresh_token c)) \<longrightarrow>
            get_authenticated_service E w = finish_flow E (interactive_flow E w1))
     \<and> (co = Some c \<and> expired c \<and> truthy (refresh_token c) \<and> refresh E c = Inr c'
          \<and> valid c' \<longrightarrow>
            get_authenticated_service E w =
              build c' (save_credentials E c'
                (record_call RefreshToken (print ''Refreshing access token...'' w1))))
     \<and> (co = Some c \<and> expired c \<and> truthy (refresh_token c) \<and> refresh E c = Inl e' \<longrightarrow>
            get_authenticated_service E w =
              finish_flow E (interactive_flow E
                (print (''Error refreshing token: '' @ e')
                  (record_call RefreshToken (print ''Refreshing access token...'' w1)))))
     \<and> count_list (trace (snd (get_authenticated_service E w))) RefreshToken
           \<le> count_list (trace w) RefreshToken + 1
     \<and> count_list (trace (snd (get_authenticated_service E w))) RunLocalServer
           \<le> count_list (trace w) RunLocalServer + 1
     \<and> (fst (get_authenticated_service E w) = Inr (Some (Service c'')) \<longrightarrow>
            credentials_file (snd (get_authenticated_service E w)) = Some (to_json E c''))"
proof -
  have nv: "\<not> valid c" if "co = Some c"
    using assms(2) that by (simp add: usable_def split: if_splits)
  have u: "usable (fst (load_credentials E w)) = None"
    using assms by simp
  show ?thesis
  proof (intro conjI impI)
    assume "client_secrets_file E = None"
    then show "interactive_flow E w' =
              (Inr None,
               w'\<lparr>trace := trace w' @
                 [Print ''Initiating new authentication flow...'',
                  Print ''Error: 'config/client_secrets.json' not found.'',
                  Print ''Please download your OAuth 2.0 client secrets JSON file from Google Cloud Console'',
                  Print ''and rename it to 'client_secrets.json' in the same directory as this script.'']\<rparr>)"
      by (rule interactive_flow_config_missing)
  next
    assume "client_secrets_file E = Some secrets \<and> from_client_secrets_file E secrets = Inr fl
          \<and> run_local_server E fl = Inl e"
    then show "interactive_flow E w' =
              (Inr None,
               w'\<lparr>trace := trace w' @
                 [Print ''Initiating new authentication flow...'', LoadClientSecrets,
                  RunLocalServer, Print (''Error during OAuth 2.0 flow: '' @ e),
                  Print ''Please ensure 'client_secrets.json' is correctly configured and you have an internet connection.'']\<rparr>)"
      by (intro interactive_flow_aborted [of E secrets fl]) simp_all
  next
    assume "co = None"
    then show "get_authenticated_service E w = finish_flow E (interactive_flow E w1)"
      using assms(1) by (intro get_authenticated_service_no_credentials) simp
  next
    assume a: "co = Some c \<and> \<not> (expired c \<and> truthy (refresh_token c))"
    then show "get_authenticated_service E w = finish_flow E (interactive_flow E w1)"
      using assms(1) nv by (intro get_authenticated_service_unrefreshable [of E w c]) simp_all
  next
    assume a: "co = Some c \<and> expired c \<and> truthy (refresh_token c) \<and> refresh E c = Inr c'
          \<and> valid c'"
    then show "get_authenticated_service E w =
              build c' (save_credentials E c'
                (record_call RefreshToken (print ''Refreshing access token...'' w1)))"
      using assms(1) nv by (intro get_authenticated_service_refreshed [of E w c]) simp_all
  next
    assume a: "co = Some c \<and> expired c \<and> truthy (refresh_token c) \<and> refresh E c = Inl e'"
    then show "get_authenticated_service E w =
              finish_flow E (interactive_flow E
                (print (''Error refreshing token: '' @ e')
                  (record_call RefreshToken (print ''Refreshing access token...'' w1))))"
      using assms(1) nv by (intro get_authenticated_service_refresh_failed [of E w c]) simp_all
  next
    show "count_list (trace (snd (get_authenticated_service E w))) RefreshToken
           \<le> count_list (trace w) RefreshToken + 1"
      using get_authenticated_service_once [of E w] by simp
    show "count_list (trace (snd (get_authenticated_service E w))) RunLocalServer
           \<le> count_list (trace w) RunLocalServer + 1"
      using get_authenticated_service_once [of E w] by simp
  next
    assume "fst (get_authenticated_service E w) = Inr (Some (Service c''))"
    with u show "credentials_file (snd (get_authenticated_service E w)) = Some (to_json E c'')"
      by (rule get_authenticated_service_saved)
  qed
qed

text \<open>
  Claim C9. Loading gives \<open>None\<close> when the credentials file is absent, and when it exists
  and the library's loader raises: then the error is printed and nothing is raised. In
  both cases \<open>get_authenticated_service\<close> goes on to the interactive flow, and returns a
  service when the flow grants credentials.
\<close>

theorem load_credentials_absent_or_malformed:
  "(credentials_file w = None \<longrightarrow> load_credentials E w = (None, w))
   \<and> (credentials_file w = Some json \<and> from_authorized_user_file E json = Inl e \<longrightarrow>
        load_credentials E w =
          (None,
           print (''Error loading credentials from config/credentials.json: '' @ e)
             (record_call LoadCredentials w)))
   \<and> (fst (load_credentials E w) = None \<longrightarrow>
        get_authenticated_service E w =
          finish_flow E (interactive_flow E (snd (load_credentials E w))))
   \<and> (fst (load_credentials E w) = None \<and> client_secrets_file E = Some secrets
        \<and> from_client_secrets_file E secrets = Inr fl \<and> run_local_server E fl = Inr c \<longrightarrow>
        fst (get_authenticated_service E w) = Inr (Some (Service c)))"
proof (intro conjI impI)
  assume "credentials_file w = None"
  then show "load_credentials E w = (None, w)"
    by (simp add: load_credentials_def)
next
  assume "credentials_file w = Some json \<and> from_authorized_user_file E json = Inl e"
  then show "load_credentials E w =
          (None,
           print (''Error loading credentials from config/credentials.json: '' @ e)
             (record_call LoadCredentials w))"
    by (simp add: load_credentials_def CREDENTIALS_FILE_def)
next
  assume "fst (load_credentials E w) = None"
  then have "load_credentials E w = (None, snd (load_credentials E w))"
    by (cases "load_credentials E w") simp
  then show "get_authenticated_service E w =
          finish_flow E (interactive_flow E (snd (load_credentials E w)))"
    by (rule get_authenticated_service_no_credentials)
next
  assume a: "fst (load_credentials E w) = None \<and> client_secrets_file E = Some secrets
        \<and> from_client_secrets_file E secrets = Inr fl \<and> run_local_server E fl = Inr c"
  then have l: "load_credentials E w = (None, snd (load_credentials E w))"
    by (cases "load_credentials E w") simp
  have f: "interactive_flow E (snd (load_credentials E w)) =
     (Inr (Some c),
      (snd (load_credentials E w))\<lparr>trace := trace (snd (load_credentials E w)) @
        [Print ''Initiating new authentication flow...'', LoadClientSecrets, RunLocalServer]\<rparr>)"
    using a by (intro interactive_flow_granted [of E secrets fl]) simp_all
  show "fst (get_authenticated_service E w) = Inr (Some (Service c))"
    unfolding get_authenticated_service_no_credentials [OF l] f
    by (simp add: finish_flow_def build_def)
qed


theorem load_credentials_absent_or_malformed_witness:
  "load_credentials demo_env demo_world = (None, demo_world)
   \<and> fst (get_authenticated_service demo_env demo_world) = Inr (Some (Service demo_credentials))
   \<and> load_credentials demo_env (demo_world\<lparr>credentials_file := Some ''{broken''\<rparr>) =
       (None,
        demo_world\<lparr>credentials_file := Some ''{broken'',
          trace := [LoadCredentials,
                    Print ''Error loading credentials from config/credentials.json: Expecting value'']\<rparr>)
   \<and> fst (get_authenticated_service demo_env (demo_world\<lparr>credentials_file := Some ''{broken''\<rparr>))
       = Inr (Some (Service demo_credentials))"
proof -
  let ?w = "demo_world\<lparr>credentials_file := Some ''{broken''\<rparr>"
  have a: "credentials_file demo_world = None" by (simp add: demo_world_def)
  have b: "credentials_file ?w = Some ''{broken''
           \<and> from_authorized_user_file demo_env ''{broken'' = Inl ''Expecting value''"
    by (simp add: demo_env_def)
  have s: "client_secrets_file demo_env = Some ''{installed}''
           \<and> from_client_secrets_file demo_env ''{installed}'' = Inr (InstalledAppFlow ''{installed}'')
           \<and> run_local_server demo_env (InstalledAppFlow ''{installed}'') = Inr demo_credentials"
    by (simp add: demo_env_def)
  note c1 = load_credentials_absent_or_malformed [where w = demo_world and E = demo_env,
      THEN conjunct1]
  note c2 = load_credentials_absent_or_malformed [where w = "?w" and E = demo_env
      and json = "''{broken''" and e = "''Expecting value''", THEN conjunct2, THEN conjunct1]
  note c4 = load_credentials_absent_or_malformed [where E = demo_env
      and secrets = "''{installed}''" and fl = "InstalledAppFlow ''{installed}''"
      and c = demo_credentials, THEN conjunct2, THEN conjunct2, THEN conjunct2]
  have l1: "load_credentials demo_env demo_world = (None, demo_world)"
    using c1 a by simp
  have g1: "fst (get_authenticated_service demo_env demo_world) = Inr (Some (Service demo_credentials))"
    using c4 [of demo_world] l1 s by simp
  have l2: "load_credentials demo_env ?w =
          (None,
           print (''Error loading credentials from config/credentials.json: '' @ ''Expecting value'')
             (record_call LoadCredentials ?w))"
    using c2 b by simp
  have g2: "fst (get_authenticated_service demo_env ?w) = Inr (Some (Service demo_credentials))"
    using c4 [of ?w] l2 s by simp
  from l1 g1 l2 g2 show ?thesis
    by (simp add: print_def record_call_def demo_world_def)
qed

theorem authenticator_paths_witness:
  "get_authenticated_service (demo_env\<lparr>client_secrets_file := None\<rparr>) demo_world =
     (Inr None,
      demo_world\<lparr>trace :=
        [Print ''Initiating new authentication flow...'',
         Print ''Error: 'config/client_secrets.json' not found.'',
         Print ''Please download your OAuth 2.0 client secrets JSON file from Google Cloud Console'',
         Print ''and rename it to 'client_secrets.json' in the same directory as this script.'']\<rparr>)
   \<and> get_authenticated_service (demo_env\<lparr>run_local_server := (\<lambda>fl. Inl ''access_denied'')\<rparr>)
         demo_world =
     (Inr None,
      demo_world\<lparr>trace :=
        [Print ''Initiating new authentication flow...'', LoadClientSecrets, RunLocalServer,
         Print ''Error during OAuth 2.0 flow: access_denied'',
         Print ''Please ensure 'client_secrets.json' is correctly configured and you have an internet connection.'']\<rparr>)
   \<and> get_authenticated_service demo_stale_env demo_stale_world =
     (Inr (Some (Service (demo_expired\<lparr>valid := True, expired := False\<rparr>))),
      demo_stale_world\<lparr>trace :=
        [LoadCredentials, Print ''Refreshing access token...'', RefreshToken,
         WriteCredentials ''saved'', Print ''Credentials saved to config/credentials.json'',
         Build],
        credentials_file := Some ''saved''\<rparr>)
   \<and> get_authenticated_service (demo_stale_env\<lparr>refresh := (\<lambda>c. Inl ''invalid_grant'')\<rparr>)
         demo_stale_world =
     (Inr (Some (Service demo_credentials)),
      demo_stale_world\<lparr>trace :=
        [LoadCredentials, Print ''Refreshing access token...'', RefreshToken,
         Print ''Error refreshing token: invalid_grant'',
         Print ''Initiating new authentication flow...'', LoadClientSecrets, RunLocalServer,
         WriteCredentials ''saved'', Print ''Credentials saved to config/credentials.json'',
         Build],
        credentials_file := Some ''saved''\<rparr>)"
proof -
  let ?E1 = "demo_env\<lparr>client_secrets_file := None\<rparr>"
  let ?E2 = "demo_env\<lparr>run_local_server := (\<lambda>fl. Inl ''access_denied'')\<rparr>"
  let ?E4 = "demo_stale_env\<lparr>refresh := (\<lambda>c. Inl ''invalid_grant'')\<rparr>"
  let ?wl = "record_call LoadCredentials demo_stale_world"
  let ?fresh = "demo_expired\<lparr>valid := True, expired := False\<rparr>"
  have un: "usable None = None" by (simp add: usable_def)
  have ue: "usable (Some demo_expired) = None" by (simp add: usable_def demo_expired_def)
  have l1: "load_credentials ?E1 demo_world = (None, demo_world)"
    by (simp add: load_credentials_def demo_world_def)
  have l2: "load_credentials ?E2 demo_world = (None, demo_world)"
    by (simp add: load_credentials_def demo_world_def)
  have l3: "load_credentials demo_stale_env demo_stale_world = (Some demo_expired, ?wl)"
    by (simp add: load_credentials_def demo_stale_world_def demo_stale_env_def)
  have l4: "load_credentials ?E4 demo_stale_world = (Some demo_expired, ?wl)"
    by (simp add: load_credentials_def demo_stale_world_def demo_stale_env_def)
  have x: "expired demo_expired \<and> truthy (refresh_token demo_expired)"
    by (simp add: demo_expired_def demo_credentials_def truthy_def)
  note t1 = authenticator_paths [OF l1 un, where w' = demo_world]
  note t2 = authenticator_paths [OF l2 un, where w' = demo_world and secrets = "''{installed}''"
      and fl = "InstalledAppFlow ''{installed}''" and e = "''access_denied''"]
  note t3 = authenticator_paths [OF l3 ue, where c = demo_expired and c' = ?fresh]
  note t4 = authenticator_paths [OF l4 ue, where c = demo_expired and e' = "''invalid_grant''"]
  have g1: "get_authenticated_service ?E1 demo_world =
     (Inr None,
      demo_world\<lparr>trace :=
        [Print ''Initiating new authentication flow...'',
         Print ''Error: 'config/client_secrets.json' not found.'',
         Print ''Please download your OAuth 2.0 client secrets JSON file from Google Cloud Console'',
         Print ''and rename it to 'client_secrets.json' in the same directory as this script.'']\<rparr>)"
    using t1 by (simp add: demo_env_def finish_flow_def demo_world_def)
  have g2: "get_authenticated_service ?E2 demo_world =
     (Inr None,
      demo_world\<lparr>trace :=
        [Print ''Initiating new authentication flow...'', LoadClientSecrets, RunLocalServer,
         Print ''Error during OAuth 2.0 flow: access_denied'',
         Print ''Please ensure 'client_secrets.json' is correctly configured and you have an internet connection.'']\<rparr>)"
    using t2 by (simp add: demo_env_def finish_flow_def demo_world_def)
  have r3: "refresh demo_stale_env demo_expired = Inr ?fresh \<and> valid ?fresh"
    by (simp add: demo_stale_env_def demo_env_def)
  have g3: "get_authenticated_service demo_stale_env demo_stale_world =
     (Inr (Some (Service ?fresh)),
      demo_stale_world\<lparr>trace :=
        [LoadCredentials, Print ''Refreshing access token...'', RefreshToken,
         WriteCredentials ''saved'', Print ''Credentials saved to config/credentials.json'',
         Build],
        credentials_file := Some ''saved''\<rparr>)"
    using t3 x r3
    by (simp add: build_def save_credentials_def print_def record_call_def
          CREDENTIALS_FILE_def demo_stale_env_def demo_env_def demo_stale_world_def
          demo_world_def)
  have r4: "refresh ?E4 demo_expired = Inl ''invalid_grant''"
    by simp
  have f4: "interactive_flow ?E4 w =
     (Inr (Some demo_credentials),
      w\<lparr>trace := trace w @
        [Print ''Initiating new authentication flow...'', LoadClientSecrets, RunLocalServer]\<rparr>)"
    for w :: "string list world"
    by (rule interactive_flow_granted [of _ "''{installed}''" "InstalledAppFlow ''{installed}''"])
       (simp_all add: demo_stale_env_def demo_env_def)
  have e4: "get_authenticated_service ?E4 demo_stale_world =
     finish_flow ?E4 (interactive_flow ?E4
       (print (''Error refreshing token: '' @ ''invalid_grant'')
         (record_call RefreshToken (print ''Refreshing access token...'' ?wl))))"
    using t4 x r4 by blast
  have g4: "get_authenticated_service ?E4 demo_stale_world =
     (Inr (Some (Service demo_credentials)),
      demo_stale_world\<lparr>trace :=
        [LoadCredentials, Print ''Refreshing access token...'', RefreshToken,
         Print ''Error refreshing token: invalid_grant'',
         Print ''Initiating new authentication flow...'', LoadClientSecrets, RunLocalServer,
         WriteCredentials ''saved'', Print ''Credentials saved to config/credentials.json'',
         Build],
        credentials_file := Some ''saved''\<rparr>)"
    unfolding e4 f4
    by (simp add: finish_flow_def build_def save_credentials_def print_def record_call_def
          CREDENTIALS_FILE_def demo_stale_env_def demo_env_def demo_stale_world_def
          demo_world_def)
  from g1 g2 g3 g4 show ?thesis by (intro conjI)
qed

text \<open>
  Saving and reloading. The script writes \<open>to_json\<close> of the credentials to the file that
  it loads from. When the library's loader gives back the credentials that its
  serialiser wrote, and they are valid, the next run loads them and builds the service:
  nothing is refreshed, authorised or written.
\<close>

lemma reload_after_save:
  assumes "credentials_file w = Some (to_json E c)"
    and "from_authorized_user_file E (to_json E c) = Inr c"
    and "valid c"
  shows "get_authenticated_service E w = build c (record_call LoadCredentials w)"
  using assms by (simp add: get_authenticated_service_def load_credentials_def usable_def)


end
